theory Spec2Isabelle
  imports Main
begin

section \<open>Python values shared by all modules\<close>

text \<open>
  Every \<open>raise\<close> of the source, and every exception of a Python builtin the source
  calls, is a value of \<open>error\<close>; a fallible function returns \<open>error + 'a\<close> with
  \<open>Inl\<close> the exception.
\<close>

datatype error =
    ValueError
  | KeyError
  | IndexError
  | AttributeError
  | AssertionError
  | TypeError
  | OverflowError

type_synonym bytes = "nat list"

section \<open>hub/util/chunks.py: chunk identifiers and chunk names\<close>

subsection \<open>Python's \<open>hex\<close> and \<open>int(s, 16)\<close>\<close>

definition hexdigit :: "nat \<Rightarrow> char" where
  "hexdigit d = ''0123456789abcdef'' ! (d mod 16)"

function to_hex :: "nat \<Rightarrow> string" where
  "to_hex n = (if n < 16 then [hexdigit n] else to_hex (n div 16) @ [hexdigit (n mod 16)])"
  by pat_completeness auto
termination
  by (relation "measure id") auto

declare to_hex.simps [simp del]

text \<open>\<open>hex(n)\<close> of a Python int: a sign for a negative number, the prefix \<open>0x\<close>,
  lowercase digits without leading zeros.\<close>

definition py_hex :: "int \<Rightarrow> string" where
  "py_hex n = (if n < 0 then ''-0x'' @ to_hex (nat (- n)) else ''0x'' @ to_hex (nat n))"

definition hexval :: "char \<Rightarrow> nat option" where
  "hexval c =
     (let n = (of_char c :: nat) in
      if 48 \<le> n \<and> n \<le> 57 then Some (n - 48)
      else if 97 \<le> n \<and> n \<le> 102 then Some (n - 87)
      else if 65 \<le> n \<and> n \<le> 70 then Some (n - 55)
      else None)"

text \<open>The whitespace characters of Python among the code points below 256.\<close>

definition is_space :: "char \<Rightarrow> bool" where
  "is_space c = ((of_char c :: nat) \<in> {9, 10, 11, 12, 13, 28, 29, 30, 31, 32, 133, 160})"

definition strip :: "string \<Rightarrow> string" where
  "strip s = rev (dropWhile is_space (rev (dropWhile is_space s)))"

text \<open>The digits of an integer literal: a single underscore may stand before a digit.\<close>

fun digits16 :: "nat \<Rightarrow> string \<Rightarrow> nat option" where
  "digits16 acc [] = Some acc"
| "digits16 acc (c # cs) =
     (if c = CHR ''_'' then
        (case cs of
           [] \<Rightarrow> None
         | d # ds \<Rightarrow> (case hexval d of None \<Rightarrow> None | Some v \<Rightarrow> digits16 (16 * acc + v) ds))
      else (case hexval c of None \<Rightarrow> None | Some v \<Rightarrow> digits16 (16 * acc + v) cs))"

text \<open>
  \<open>int(s, 16)\<close> on a string of code points below 256: surrounding whitespace is stripped, then an optional
  sign, an optional prefix \<open>0x\<close> or \<open>0X\<close>, and at least one digit; an underscore may
  follow the prefix but not start a literal without one. Anything else is a ValueError.
\<close>

definition py_int16 :: "string \<Rightarrow> error + int" where
  "py_int16 s =
     (let t = strip s;
          neg = (t \<noteq> [] \<and> hd t = CHR ''-'');
          u = (if t \<noteq> [] \<and> (hd t = CHR ''-'' \<or> hd t = CHR ''+'') then tl t else t);
          pre = (take 2 u = ''0x'' \<or> take 2 u = ''0X'');
          v = (if pre then drop 2 u else u)
      in if v = [] \<or> (\<not> pre \<and> hd v = CHR ''_'') then Inl ValueError
         else (case digits16 0 v of
                 None \<Rightarrow> Inl ValueError
               | Some n \<Rightarrow> Inr (if neg then - int n else int n)))"

subsection \<open>The functions of chunks.py\<close>

text \<open>\<open>chunk_name_from_id\<close>: \<open>hex(id)[2:]\<close>.\<close>

definition chunk_name_from_id :: "int \<Rightarrow> string" where
  "chunk_name_from_id ident = drop 2 (py_hex ident)"

text \<open>\<open>chunk_id_from_name\<close>: \<open>int("0x" + name, 16)\<close>.\<close>

definition chunk_id_from_name :: "string \<Rightarrow> error + int" where
  "chunk_id_from_name name = py_int16 (''0x'' @ name)"

text \<open>
  \<open>_cast_to_encoding_dtype\<close>: \<open>ENCODING_DTYPE(uuid.int >> UUID_SHIFT_AMOUNT)\<close>. The two
  constants live in \<open>hub.constants\<close>, which is not among the sources: the shift amount
  and the integer type's constructor are parameters.
\<close>

definition cast_to_encoding_dtype :: "nat \<Rightarrow> (int \<Rightarrow> error + int) \<Rightarrow> int \<Rightarrow> error + int" where
  "cast_to_encoding_dtype UUID_SHIFT_AMOUNT ENCODING_DTYPE uuid_int =
     ENCODING_DTYPE (drop_bit UUID_SHIFT_AMOUNT uuid_int)"

text \<open>
  \<open>random_chunk_id\<close>: \<open>_cast_to_encoding_dtype(uuid4())\<close>. The random draw is the
  argument \<open>uuid_int\<close>; \<open>is_uuid4\<close> says which 128-bit integers \<open>uuid4()\<close> can return
  (version nibble 4, variant bits 10, every other bit free).
\<close>

definition is_uuid4 :: "int \<Rightarrow> bool" where
  "is_uuid4 u = (0 \<le> u \<and> u < 2 ^ 128 \<and> drop_bit 76 u mod 16 = 4 \<and> drop_bit 62 u mod 4 = 2)"

definition random_chunk_id :: "nat \<Rightarrow> (int \<Rightarrow> error + int) \<Rightarrow> int \<Rightarrow> error + int" where
  "random_chunk_id UUID_SHIFT_AMOUNT ENCODING_DTYPE uuid_int =
     cast_to_encoding_dtype UUID_SHIFT_AMOUNT ENCODING_DTYPE uuid_int"

text \<open>
  Modelled from the spec: the identifier type of \<open>hub.constants\<close>, which is not among the
  sources. The spec calls it a fixed-width integer that the 128-bit value is shifted to
  fit; \<open>chunk_uuid_from_id\<close> pads a name with 24 hexadecimal digits (96 bits) to the 32
  digits of a UUID, so the width is 32 bits and the shift 96. A value outside the range
  is refused.
\<close>

definition uint32 :: "int \<Rightarrow> error + int" where
  "uint32 x = (if 0 \<le> x \<and> x < 2 ^ 32 then Inr x else Inl OverflowError)"

text \<open>
  \<open>UUID(hex=s)\<close> of the standard library: the prefixes \<open>urn:\<close> and \<open>uuid:\<close>, braces at
  both ends and hyphens are removed; what is left must have exactly 32 characters and
  parse as a hexadecimal integer, which is the UUID's 128-bit value.
\<close>

function remove_sub :: "string \<Rightarrow> string \<Rightarrow> string" where
  "remove_sub p s =
     (if p = [] \<or> s = [] then s
      else if take (length p) s = p then remove_sub p (drop (length p) s)
      else hd s # remove_sub p (tl s))"
  by pat_completeness auto
termination
  by (relation "measure (\<lambda>(p, s). length s)") auto

declare remove_sub.simps [simp del]

definition is_brace :: "char \<Rightarrow> bool" where
  "is_brace c = (c = CHR ''{'' \<or> c = CHR ''}'')"

definition uuid_from_hex :: "string \<Rightarrow> error + int" where
  "uuid_from_hex s =
     (let h1 = remove_sub ''uuid:'' (remove_sub ''urn:'' s);
          h2 = rev (dropWhile is_brace (rev (dropWhile is_brace h1)));
          h3 = filter (\<lambda>c. c \<noteq> CHR ''-'') h2
      in if length h3 \<noteq> 32 then Inl ValueError
         else (case py_int16 h3 of
                 Inl e \<Rightarrow> Inl e
               | Inr i \<Rightarrow> if 0 \<le> i \<and> i < 2 ^ 128 then Inr i else Inl ValueError))"

text \<open>\<open>chunk_uuid_from_id\<close>: the name, 24 zeros appended, read as a UUID.\<close>

definition chunk_uuid_from_id :: "int \<Rightarrow> error + int" where
  "chunk_uuid_from_id ident =
     (let chunk_name = chunk_name_from_id ident;
          padded_chunk_name = chunk_name @ ''000000000000000000000000''
      in uuid_from_hex padded_chunk_name)"

section \<open>hub/util/transform.py: merging the output of parallel workers\<close>

subsection \<open>\<open>merge_chunks\<close>\<close>

text \<open>
  The storage provider is a dictionary from keys to bytes. Every access is an effect, so
  the provider also keeps the list of the accesses made to it, oldest first.
\<close>

datatype storage_op = Get_item string | Del_item string | Set_item string

record storage_provider =
  objects :: "string \<rightharpoonup> bytes"
  accesses :: "storage_op list"

definition storage_getitem :: "storage_provider \<Rightarrow> string \<Rightarrow> (error + bytes) \<times> storage_provider" where
  "storage_getitem storage k =
     ((case objects storage k of None \<Rightarrow> Inl KeyError | Some b \<Rightarrow> Inr b),
      storage\<lparr>accesses := accesses storage @ [Get_item k]\<rparr>)"

definition storage_delitem :: "storage_provider \<Rightarrow> string \<Rightarrow> (error + unit) \<times> storage_provider" where
  "storage_delitem storage k =
     (case objects storage k of
        None \<Rightarrow> (Inl KeyError, storage\<lparr>accesses := accesses storage @ [Del_item k]\<rparr>)
      | Some b \<Rightarrow>
          (Inr (), storage\<lparr>objects := (objects storage)(k := None),
                           accesses := accesses storage @ [Del_item k]\<rparr>))"

definition storage_setitem :: "storage_provider \<Rightarrow> string \<Rightarrow> bytes \<Rightarrow> storage_provider" where
  "storage_setitem storage k b =
     storage\<lparr>objects := (objects storage)(k \<mapsto> b), accesses := accesses storage @ [Set_item k]\<rparr>"

text \<open>
  Modelled from the spec: \<open>get_chunk_key\<close> of \<open>hub.util.keys\<close>, which is not among the
  sources. The spec gives the key layout \<open><tensor_key>/chunks/<hex_chunk_id>\<close>.
\<close>

definition get_chunk_key :: "string \<Rightarrow> string \<Rightarrow> string" where
  "get_chunk_key tensor chunk_name = tensor @ ''/chunks/'' @ chunk_name"

text \<open>An entry of the index meta: the dictionary keys the sources read and write.\<close>

record index_entry =
  chunk_names :: "string list"
  start_byte :: int
  end_byte :: int
  entry_shape :: "nat list"

record index_meta =
  entries :: "index_entry list"

text \<open>
  The loop over \<open>current_meta["entries"]\<close>: an entry whose \<open>chunk_names\<close> is exactly
  \<open>[first_chunk_name]\<close> is rewritten in place; the first other entry ends the loop.
\<close>

fun merge_chunks_entries :: "string \<Rightarrow> string \<Rightarrow> int \<Rightarrow> index_entry list \<Rightarrow> index_entry list" where
  "merge_chunks_entries first_chunk_name last_chunk_name offset [] = []"
| "merge_chunks_entries first_chunk_name last_chunk_name offset (e # es) =
     (if chunk_names e = [first_chunk_name] then
        e\<lparr>chunk_names := [last_chunk_name],
          start_byte := start_byte e + offset,
          end_byte := end_byte e + offset\<rparr>
        # merge_chunks_entries first_chunk_name last_chunk_name offset es
      else e # es)"

text \<open>
  \<open>merge_chunks\<close>. The constant \<open>DEFAULT_MAX_CHUNK_SIZE\<close> of \<open>hub.constants\<close> is not
  among the sources and is the first parameter. The function returns nothing; the model
  returns the exception if one was raised, and the storage and the meta as the call
  leaves them.
\<close>

definition merge_chunks ::
  "int \<Rightarrow> int \<Rightarrow> string \<Rightarrow> storage_provider \<Rightarrow> index_meta \<Rightarrow> string \<Rightarrow> int \<Rightarrow> string \<Rightarrow> int
     \<Rightarrow> (error + unit) \<times> storage_provider \<times> index_meta" where
  "merge_chunks DEFAULT_MAX_CHUNK_SIZE chunk_min_target tensor storage current_meta
       first_chunk_name first_chunk_size last_chunk_name last_chunk_size =
     (if first_chunk_size < chunk_min_target
         \<and> first_chunk_size + last_chunk_size \<le> DEFAULT_MAX_CHUNK_SIZE then
        (let first_chunk_key = get_chunk_key tensor first_chunk_name;
             last_chunk_key = get_chunk_key tensor last_chunk_name;
             (r1, storage1) = storage_getitem storage last_chunk_key
         in case r1 of
              Inl e \<Rightarrow> (Inl e, storage1, current_meta)
            | Inr last_chunk_content \<Rightarrow>
                (let (r2, storage2) = storage_getitem storage1 first_chunk_key
                 in case r2 of
                      Inl e \<Rightarrow> (Inl e, storage2, current_meta)
                    | Inr first_chunk_content \<Rightarrow>
                        (let new_chunk = last_chunk_content @ first_chunk_content;
                             (r3, storage3) = storage_delitem storage2 first_chunk_key
                         in case r3 of
                              Inl e \<Rightarrow> (Inl e, storage3, current_meta)
                            | Inr u \<Rightarrow>
                                (let storage4 = storage_setitem storage3 last_chunk_key new_chunk;
                                     offset = last_chunk_size
                                 in (Inr (), storage4,
                                     current_meta\<lparr>entries :=
                                       merge_chunks_entries first_chunk_name last_chunk_name offset
                                         (entries current_meta)\<rparr>)))))
      else (Inr (), storage, current_meta))"

subsection \<open>\<open>merge_tensor_metas\<close>\<close>

text \<open>
  The tensor meta: the attributes the sources read and write. \<open>dtype\<close> is \<open>None\<close> until
  it is set; the field \<open>length\<close> of the source is \<open>length_meta\<close> here.
\<close>

record tensor_meta =
  dtype :: "string option"
  length_meta :: int
  max_shape :: "int list"
  min_shape :: "int list"

text \<open>
  Modelled from the spec: \<open>TensorMeta._update_shape_interval\<close>, which is not among the
  sources. The spec has the merge "widen the running min/max shape bounds
  component-wise".
\<close>

definition update_shape_interval :: "tensor_meta \<Rightarrow> int list \<Rightarrow> tensor_meta" where
  "update_shape_interval m s =
     m\<lparr>max_shape := map2 max s (max_shape m), min_shape := map2 min s (min_shape m)\<rparr>"

text \<open>The body of the loop over the workers, for one worker's meta; an \<open>assert\<close> that
  fails is an AssertionError.\<close>

definition merge_tensor_meta :: "tensor_meta \<Rightarrow> tensor_meta \<Rightarrow> error + tensor_meta" where
  "merge_tensor_meta tensor_meta current_meta =
     (if length (max_shape tensor_meta) = 0 \<or> dtype tensor_meta = None then
        Inr (tensor_meta\<lparr>dtype := dtype current_meta,
                         length_meta := length_meta tensor_meta + length_meta current_meta,
                         max_shape := max_shape current_meta,
                         min_shape := min_shape current_meta\<rparr>)
      else if length (min_shape current_meta) \<noteq> 0 then
        (if dtype tensor_meta \<noteq> dtype current_meta then Inl AssertionError
         else if length (max_shape tensor_meta) \<noteq> length (max_shape current_meta) then
           Inl AssertionError
         else if length (min_shape tensor_meta) \<noteq> length (min_shape current_meta) then
           Inl AssertionError
         else
           Inr (update_shape_interval
                  (update_shape_interval
                     (tensor_meta\<lparr>length_meta := length_meta tensor_meta + length_meta current_meta\<rparr>)
                     (max_shape current_meta))
                  (min_shape current_meta)))
      else Inr tensor_meta)"

text \<open>The loop over the workers for one tensor: \<open>metas\<close> are the workers' metas of that
  tensor, in the order of \<open>all_workers_chunk_engines\<close>.\<close>

fun merge_tensor_metas_workers :: "tensor_meta \<Rightarrow> tensor_meta list \<Rightarrow> error + tensor_meta" where
  "merge_tensor_metas_workers tensor_meta [] = Inr tensor_meta"
| "merge_tensor_metas_workers tensor_meta (current_meta # metas) =
     (case merge_tensor_meta tensor_meta current_meta of
        Inl e \<Rightarrow> Inl e
      | Inr m \<Rightarrow> merge_tensor_metas_workers m metas)"

text \<open>
  \<open>merge_tensor_metas\<close>: the loop over the tensors of \<open>ds_out\<close>. A worker's chunk
  engines and the output dataset are functions from the tensor's name to its meta; the
  merged meta is stored back under the tensor's name.
\<close>

fun merge_tensor_metas ::
  "(string \<Rightarrow> tensor_meta) list \<Rightarrow> string list \<Rightarrow> (string \<Rightarrow> tensor_meta)
     \<Rightarrow> error + (string \<Rightarrow> tensor_meta)" where
  "merge_tensor_metas all_workers_chunk_engines [] ds_out = Inr ds_out"
| "merge_tensor_metas all_workers_chunk_engines (tensor # tensors) ds_out =
     (case merge_tensor_metas_workers (ds_out tensor)
             (map (\<lambda>chunk_engine. chunk_engine tensor) all_workers_chunk_engines) of
        Inl e \<Rightarrow> Inl e
      | Inr m \<Rightarrow> merge_tensor_metas all_workers_chunk_engines tensors (ds_out(tensor := m)))"

subsection \<open>\<open>merge_chunk_id_encoders\<close>\<close>

text \<open>
  A chunk-id encoder holds \<open>_encoded_ids\<close>: \<open>None\<close>, or a two-column numpy array whose
  rows are (chunk id, cumulative sample count). The property \<open>num_samples\<close> of the
  encoder class is not among the sources and is a parameter of the merge; it returns a
  Python int, so the running offset is unbounded.
\<close>

type_synonym encoded_id = "nat \<times> nat"

text \<open>
  Modelled from the spec: the element type of the rows is \<open>ENCODING_DTYPE\<close> of
  \<open>hub.constants\<close>, the 32-bit unsigned type of the chunk identifiers above. Storing a
  sum into a row of that type keeps its low 32 bits.
\<close>

definition store_encoding_dtype :: "nat \<Rightarrow> nat" where
  "store_encoding_dtype x = x mod 2 ^ 32"

record chunk_id_encoder =
  encoded_ids :: "encoded_id list option"

text \<open>The loop over one worker's rows: each row's second field is raised by the offset
  in place (\<open>encoded_id[1] += offset\<close>, in the row's element type), and the row is appended to the destination (\<open>np.reshape\<close> for the first row
  of an empty destination, \<open>np.vstack\<close> after that). The result is the destination and
  the worker's rows as the loop leaves them.\<close>

fun merge_encoded_ids ::
  "nat \<Rightarrow> chunk_id_encoder \<Rightarrow> encoded_id list \<Rightarrow> chunk_id_encoder \<times> encoded_id list" where
  "merge_encoded_ids offset chunk_id_encoder [] = (chunk_id_encoder, [])"
| "merge_encoded_ids offset chunk_id_encoder (encoded_id # rest) =
     (let encoded_id' = (fst encoded_id, store_encoding_dtype (snd encoded_id + offset));
          chunk_id_encoder' =
            (case encoded_ids chunk_id_encoder of
               None \<Rightarrow> chunk_id_encoder\<lparr>encoded_ids := Some [encoded_id']\<rparr>
             | Some ids \<Rightarrow> chunk_id_encoder\<lparr>encoded_ids := Some (ids @ [encoded_id'])\<rparr>);
          (d, rs) = merge_encoded_ids offset chunk_id_encoder' rest
      in (d, encoded_id' # rs))"

text \<open>The loop over the workers for one tensor, from a running offset.\<close>

fun merge_chunk_id_encoders_workers ::
  "(chunk_id_encoder \<Rightarrow> nat) \<Rightarrow> nat \<Rightarrow> chunk_id_encoder \<Rightarrow> chunk_id_encoder list
     \<Rightarrow> chunk_id_encoder \<times> chunk_id_encoder list" where
  "merge_chunk_id_encoders_workers num_samples offset chunk_id_encoder [] = (chunk_id_encoder, [])"
| "merge_chunk_id_encoders_workers num_samples offset chunk_id_encoder
       (current_chunk_id_encoder # rest) =
     (let n = num_samples current_chunk_id_encoder;
          (d, cur) =
            (case encoded_ids current_chunk_id_encoder of
               None \<Rightarrow> (chunk_id_encoder, current_chunk_id_encoder)
             | Some ids \<Rightarrow>
                 (let (d, rs) = merge_encoded_ids offset chunk_id_encoder ids
                  in (d, current_chunk_id_encoder\<lparr>encoded_ids := Some rs\<rparr>)));
          (d', ws) = merge_chunk_id_encoders_workers num_samples (offset + n) d rest
      in (d', cur # ws))"

text \<open>The body of the loop over the tensors: the offset starts at the destination
  encoder's \<open>num_samples\<close>.\<close>

definition merge_chunk_id_encoders_tensor ::
  "(chunk_id_encoder \<Rightarrow> nat) \<Rightarrow> chunk_id_encoder \<Rightarrow> chunk_id_encoder list
     \<Rightarrow> chunk_id_encoder \<times> chunk_id_encoder list" where
  "merge_chunk_id_encoders_tensor num_samples chunk_id_encoder workers =
     merge_chunk_id_encoders_workers num_samples (num_samples chunk_id_encoder) chunk_id_encoder workers"

text \<open>
  \<open>merge_chunk_id_encoders\<close>: the loop over the tensors of \<open>ds_out\<close>. The result is the
  output dataset's encoders and the workers' encoders, whose rows the merge has changed
  in place.
\<close>

fun merge_chunk_id_encoders ::
  "(chunk_id_encoder \<Rightarrow> nat) \<Rightarrow> (string \<Rightarrow> chunk_id_encoder) list \<Rightarrow> string list
     \<Rightarrow> (string \<Rightarrow> chunk_id_encoder)
     \<Rightarrow> (string \<Rightarrow> chunk_id_encoder) \<times> (string \<Rightarrow> chunk_id_encoder) list" where
  "merge_chunk_id_encoders num_samples all_workers_chunk_engines [] ds_out =
     (ds_out, all_workers_chunk_engines)"
| "merge_chunk_id_encoders num_samples all_workers_chunk_engines (tensor # tensors) ds_out =
     (let (d, ws) = merge_chunk_id_encoders_tensor num_samples (ds_out tensor)
                      (map (\<lambda>chunk_engine. chunk_engine tensor) all_workers_chunk_engines)
      in merge_chunk_id_encoders num_samples
           (map2 (\<lambda>chunk_engine w. chunk_engine(tensor := w)) all_workers_chunk_engines ws)
           tensors (ds_out(tensor := d)))"

text \<open>The rows of an encoder: none when \<open>_encoded_ids\<close> is \<open>None\<close>.\<close>

definition rows_of :: "chunk_id_encoder \<Rightarrow> encoded_id list" where
  "rows_of e = (case encoded_ids e of None \<Rightarrow> [] | Some ids \<Rightarrow> ids)"

section \<open>hub/core/chunk/sample_compressed_chunk.py: the sample-wise compressed chunk\<close>

subsection \<open>Arrays\<close>

text \<open>
  A numpy array: the name of its dtype, its shape and its elements as bytes in C order.
  \<open>itemsize\<close> is the size of one element; a name that is not a dtype has none.
\<close>

record ndarray =
  arr_dtype :: string
  arr_shape :: "nat list"
  arr_data :: bytes

definition itemsize :: "string \<Rightarrow> nat option" where
  "itemsize d =
     map_of [(''bool'', 1), (''uint8'', 1), (''int8'', 1), (''uint16'', 2), (''int16'', 2),
             (''float16'', 2), (''uint32'', 4), (''int32'', 4), (''float32'', 4),
             (''uint64'', 8), (''int64'', 8), (''float64'', 8)] d"

text \<open>\<open>np.frombuffer(buffer, dtype=d)\<close>: a flat array over the buffer; the buffer's size
  must be a multiple of the element size.\<close>

definition np_frombuffer :: "bytes \<Rightarrow> string \<Rightarrow> error + ndarray" where
  "np_frombuffer buffer d =
     (case itemsize d of
        None \<Rightarrow> Inl TypeError
      | Some k \<Rightarrow>
          if length buffer mod k \<noteq> 0 then Inl ValueError
          else Inr \<lparr>arr_dtype = d, arr_shape = [length buffer div k], arr_data = buffer\<rparr>)"

text \<open>\<open>a.reshape(shape)\<close>: the same elements under another shape with as many elements;
  \<open>None\<close> is read as the empty shape.\<close>

definition np_reshape :: "ndarray \<Rightarrow> nat list option \<Rightarrow> error + ndarray" where
  "np_reshape a new_shape =
     (let s = (case new_shape of None \<Rightarrow> [] | Some s \<Rightarrow> s)
      in if prod_list s = prod_list (arr_shape a) then Inr (a\<lparr>arr_shape := s\<rparr>)
         else Inl ValueError)"

subsection \<open>Samples\<close>

text \<open>
  Modelled from the spec: the class \<open>Sample\<close> of \<open>hub.core.sample\<close>, which is not among
  the sources. The chunk constructs it in two ways: \<open>Sample(array=arr)\<close>, and
  \<open>Sample(buffer=..., compression=..., shape=...)\<close>, which the spec calls an
  already-serialized wrapper (bytes + compression + shape).
\<close>

datatype sample =
    Sample_array ndarray
  | Sample_buffer bytes "string option" "nat list option"

text \<open>
  An incoming sample: a \<open>Sample\<close>, an array (a Python number or bool is an array without
  dimensions) or a text.
\<close>

datatype sample_value =
    SV_Sample sample
  | SV_Array ndarray
  | SV_Text string

text \<open>What \<open>read_sample\<close> returns: a text for a text-like chunk, an array otherwise.\<close>

datatype read_result = R_Text string | R_Array ndarray

text \<open>
  The collaborators of the chunk, which are not among the sources and which the spec
  treats as opaque: the codec (\<open>hub.core.compression\<close>), the serializers
  (\<open>hub.core.serialize\<close>), \<open>intelligent_cast\<close> and numpy's \<open>astype\<close>. Each may raise.
\<close>

record collaborators =
  text_to_bytes :: "sample_value \<Rightarrow> string \<Rightarrow> string \<Rightarrow> error + (bytes \<times> nat list option)"
  bytes_to_text :: "bytes \<Rightarrow> string \<Rightarrow> error + string"
  compress_bytes :: "bytes \<Rightarrow> string option \<Rightarrow> error + bytes"
  decompress_bytes :: "bytes \<Rightarrow> string option \<Rightarrow> error + bytes"
  compress_array :: "ndarray \<Rightarrow> string option \<Rightarrow> error + bytes"
  decompress_array :: "bytes \<Rightarrow> nat list option \<Rightarrow> string option \<Rightarrow> string option \<Rightarrow> error + ndarray"
  intelligent_cast :: "ndarray \<Rightarrow> string \<Rightarrow> string \<Rightarrow> error + ndarray"
  astype :: "ndarray \<Rightarrow> string \<Rightarrow> error + ndarray"
  serialize_numpy_and_base_types ::
    "sample_value \<Rightarrow> string \<Rightarrow> string \<Rightarrow> string option \<Rightarrow> error + (bytes \<times> nat list option)"

text \<open>
  Modelled from the spec: the attributes of \<open>Sample\<close> the chunk uses. The wrapper keeps
  its shape and its bytes; asked for its bytes under the compression it was built with, it
  returns them as they are ("this prevents re-compressing"). Its array is decoded from
  the bytes (the wrapper carries no dtype); a sample built from an array is compressed
  by the codec.
\<close>

definition sample_shape :: "sample \<Rightarrow> nat list option" where
  "sample_shape smp =
     (case smp of Sample_array a \<Rightarrow> Some (arr_shape a) | Sample_buffer b c sh \<Rightarrow> sh)"

definition sample_array :: "collaborators \<Rightarrow> sample \<Rightarrow> error + ndarray" where
  "sample_array env smp =
     (case smp of
        Sample_array a \<Rightarrow> Inr a
      | Sample_buffer b c sh \<Rightarrow> decompress_array env b sh None c)"

definition compressed_bytes :: "collaborators \<Rightarrow> sample \<Rightarrow> string option \<Rightarrow> error + bytes" where
  "compressed_bytes env smp c =
     (case smp of
        Sample_array a \<Rightarrow> compress_array env a c
      | Sample_buffer b c' sh \<Rightarrow>
          if c' = c then Inr b
          else (case decompress_array env b sh None c' of
                  Inl e \<Rightarrow> Inl e
                | Inr a \<Rightarrow> compress_array env a c))"

subsection \<open>The chunk\<close>

text \<open>
  The attributes of the chunk that the three methods read and write. \<open>chunk_dtype\<close> is
  \<open>self.dtype\<close>. The two headers are lists in insertion order: a byte range (start, end)
  and a shape per sample.
\<close>

record chunk =
  chunk_dtype :: string
  htype :: string
  compression :: "string option"
  is_text_like :: bool
  is_byte_compression :: bool
  max_chunk_size :: nat
  data_bytes :: bytes
  shapes :: "nat list option list"
  byte_positions_encoder :: "(nat \<times> nat) list"
  shapes_encoder :: "nat list option list"

text \<open>
  Modelled from the spec: the members of \<open>BaseChunk\<close>, which is not among the sources.
  The used bytes are the length of the buffer; registering a sample appends its byte
  range, which starts where the last range ends, and its shape to the two headers.
  \<open>prepare_for_write\<close> changes none of the attributes above and is left out.
\<close>

definition num_data_bytes :: "chunk \<Rightarrow> nat" where
  "num_data_bytes self = length (data_bytes self)"

definition last_end_byte :: "chunk \<Rightarrow> nat" where
  "last_end_byte self =
     (case byte_positions_encoder self of [] \<Rightarrow> 0 | ranges \<Rightarrow> snd (last ranges))"

definition register_sample_to_headers :: "chunk \<Rightarrow> nat \<Rightarrow> nat list option \<Rightarrow> chunk" where
  "register_sample_to_headers self sample_nbytes sample_shape' =
     self\<lparr>byte_positions_encoder :=
            byte_positions_encoder self @ [(last_end_byte self, last_end_byte self + sample_nbytes)],
          shapes_encoder := shapes_encoder self @ [sample_shape']\<rparr>"

text \<open>\<open>serialize_sample\<close>: the three branches, then the scalar shape \<open>()\<close> made \<open>(1,)\<close>.\<close>

definition serialize_sample ::
  "collaborators \<Rightarrow> chunk \<Rightarrow> sample_value \<Rightarrow> error + (bytes \<times> nat list option)" where
  "serialize_sample env self incoming_sample =
     (let dt = chunk_dtype self;
          ht = htype self;
          r = (if is_text_like self then
                 (case text_to_bytes env incoming_sample dt ht of
                    Inl e \<Rightarrow> Inl e
                  | Inr (b, sh) \<Rightarrow>
                      (case compress_bytes env b (compression self) of
                         Inl e \<Rightarrow> Inl e
                       | Inr cb \<Rightarrow> Inr (cb, sh)))
               else
                 (case incoming_sample of
                    SV_Sample smp \<Rightarrow>
                      (let sh = sample_shape smp in
                       if is_byte_compression self then
                         (case sample_array env smp of
                            Inl e \<Rightarrow> Inl e
                          | Inr a \<Rightarrow>
                              (case intelligent_cast env a dt ht of
                                 Inl e \<Rightarrow> Inl e
                               | Inr arr \<Rightarrow>
                                   (case compressed_bytes env (Sample_array arr) (compression self) of
                                      Inl e \<Rightarrow> Inl e
                                    | Inr cb \<Rightarrow> Inr (cb, sh))))
                       else
                         (case compressed_bytes env smp (compression self) of
                            Inl e \<Rightarrow> Inl e
                          | Inr cb \<Rightarrow> Inr (cb, sh)))
                  | _ \<Rightarrow> serialize_numpy_and_base_types env incoming_sample dt ht (compression self)))
      in case r of
           Inl e \<Rightarrow> Inl e
         | Inr (b, sh) \<Rightarrow> Inr (b, if sh = Some [] then Some [1] else sh))"

text \<open>
  \<open>extend_if_has_space\<close>: the loop \<open>for i, incoming_sample in enumerate(incoming_samples)\<close>
  from index \<open>i\<close>. The chunk and the caller's list are changed in place, so the model
  returns both as the call leaves them, with the returned count or the exception raised.
\<close>

function extend_loop ::
  "collaborators \<Rightarrow> nat \<Rightarrow> chunk \<Rightarrow> sample_value list
     \<Rightarrow> (error + nat) \<times> chunk \<times> sample_value list" where
  "extend_loop env i self incoming_samples =
     (if i < length incoming_samples then
        (case serialize_sample env self (incoming_samples ! i) of
           Inl e \<Rightarrow> (Inl e, self, incoming_samples)
         | Inr (serialized_sample, sh) \<Rightarrow>
             (let sample_nbytes = length serialized_sample;
                  incoming_samples' =
                    incoming_samples[i := SV_Sample (Sample_buffer serialized_sample (compression self) sh)]
              in if num_data_bytes self + sample_nbytes > max_chunk_size self then
                   (Inr i, self, incoming_samples')
                 else
                   extend_loop env (Suc i)
                     (register_sample_to_headers
                        (self\<lparr>data_bytes := data_bytes self @ serialized_sample,
                              shapes := shapes self @ [sh]\<rparr>)
                        sample_nbytes sh)
                     incoming_samples'))
      else (Inr (length incoming_samples), self, incoming_samples))"
  by pat_completeness auto
termination
  by (relation "measure (\<lambda>(env, i, self, incoming_samples). length incoming_samples - i)") auto

declare extend_loop.simps [simp del]

definition extend_if_has_space ::
  "collaborators \<Rightarrow> chunk \<Rightarrow> sample_value list \<Rightarrow> (error + nat) \<times> chunk \<times> sample_value list" where
  "extend_if_has_space env self incoming_samples = extend_loop env 0 self incoming_samples"

text \<open>
  \<open>read_sample\<close>: the byte range and the shape of the sample, the slice of the buffer,
  and then the text branch or the array branch. In the array branch the decompressed
  (and cast) sample is computed, and the value returned is
  \<open>np.frombuffer(buffer, dtype=self.dtype).reshape(shape)\<close>.
\<close>

definition read_sample :: "collaborators \<Rightarrow> chunk \<Rightarrow> nat \<Rightarrow> bool \<Rightarrow> error + read_result" where
  "read_sample env self local_sample_index cast =
     (if local_sample_index \<ge> length (byte_positions_encoder self) then Inl IndexError
      else
        (let (sb, eb) = byte_positions_encoder self ! local_sample_index;
             buffer = take (eb - sb) (drop sb (data_bytes self))
         in if local_sample_index \<ge> length (shapes_encoder self) then Inl IndexError
            else
              (let sh = shapes_encoder self ! local_sample_index
               in if is_text_like self then
                    (case decompress_bytes env buffer (compression self) of
                       Inl e \<Rightarrow> Inl e
                     | Inr b \<Rightarrow>
                         (case bytes_to_text env b (htype self) of
                            Inl e \<Rightarrow> Inl e
                          | Inr t \<Rightarrow> Inr (R_Text t)))
                  else
                    (case decompress_array env buffer sh (Some (chunk_dtype self)) (compression self) of
                       Inl e \<Rightarrow> Inl e
                     | Inr smp \<Rightarrow>
                         (case (if cast \<and> arr_dtype smp \<noteq> chunk_dtype self
                                then astype env smp (chunk_dtype self) else Inr smp) of
                            Inl e \<Rightarrow> Inl e
                          | Inr smp' \<Rightarrow>
                              (case np_frombuffer buffer (chunk_dtype self) of
                                 Inl e \<Rightarrow> Inl e
                               | Inr flat \<Rightarrow>
                                   (case np_reshape flat sh of
                                      Inl e \<Rightarrow> Inl e
                                    | Inr a \<Rightarrow> Inr (R_Array a))))))))"

subsection \<open>A codec to run the chunk with\<close>

text \<open>
  A concrete set of collaborators for evaluating the chunk: the codec stores a payload as
  one header byte followed by the raw bytes, and decoding drops the header, so decoding
  undoes encoding. Texts are ASCII; a cast to another dtype is not supported.
\<close>

definition stored_decompress_array ::
  "bytes \<Rightarrow> nat list option \<Rightarrow> string option \<Rightarrow> string option \<Rightarrow> error + ndarray" where
  "stored_decompress_array b sh dt c =
     (case b of
        [] \<Rightarrow> Inl ValueError
      | h # raw \<Rightarrow>
          (case np_frombuffer raw (case dt of None \<Rightarrow> ''float64'' | Some d \<Rightarrow> d) of
             Inl e \<Rightarrow> Inl e
           | Inr flat \<Rightarrow> np_reshape flat sh))"

definition stored_cast :: "ndarray \<Rightarrow> string \<Rightarrow> error + ndarray" where
  "stored_cast a d = (if arr_dtype a = d then Inr a else Inl TypeError)"

definition stored_codec :: collaborators where
  "stored_codec =
     \<lparr>text_to_bytes = (\<lambda>v dt ht. case v of
                          SV_Text s \<Rightarrow> Inr (map of_char s, Some [1])
                        | _ \<Rightarrow> Inl TypeError),
      bytes_to_text = (\<lambda>b ht. Inr (map char_of b)),
      compress_bytes = (\<lambda>b c. Inr (0 # b)),
      decompress_bytes = (\<lambda>b c. case b of [] \<Rightarrow> Inl ValueError | h # raw \<Rightarrow> Inr raw),
      compress_array = (\<lambda>a c. Inr (0 # arr_data a)),
      decompress_array = stored_decompress_array,
      intelligent_cast = (\<lambda>a dt ht. stored_cast a dt),
      astype = stored_cast,
      serialize_numpy_and_base_types = (\<lambda>v dt ht c. case v of
                          SV_Array a \<Rightarrow>
                            (case stored_cast a dt of
                               Inl e \<Rightarrow> Inl e
                             | Inr a' \<Rightarrow> Inr (0 # arr_data a', Some (arr_shape a')))
                        | _ \<Rightarrow> Inl TypeError)\<rparr>"

text \<open>
  The same collaborators with a compressor that answers every call with the one-byte
  payload 255 and a decoder that accepts every payload: a payload of 255 in a result
  shows that the compressor was called to produce it.
\<close>

definition marker_codec :: collaborators where
  "marker_codec =
     stored_codec\<lparr>compress_bytes := (\<lambda>b c. Inr [255]),
                  compress_array := (\<lambda>a c. Inr [255]),
                  decompress_array := (\<lambda>b sh dt c.
                     Inr \<lparr>arr_dtype = ''uint8'', arr_shape = [length b], arr_data = b\<rparr>),
                  intelligent_cast := (\<lambda>a dt ht. Inr a)\<rparr>"

text \<open>The wrapper that \<open>extend_if_has_space\<close> writes into the caller's list for a sample:
  the serialized bytes, the chunk's compression and the recorded shape.\<close>

definition serialized_wrapper :: "collaborators \<Rightarrow> chunk \<Rightarrow> sample_value \<Rightarrow> sample_value" where
  "serialized_wrapper env self x =
     (case serialize_sample env self x of
        Inl e \<Rightarrow> x
      | Inr (b, sh) \<Rightarrow> SV_Sample (Sample_buffer b (compression self) sh))"

text \<open>An empty chunk of a tensor of bytes under a byte-level compression.\<close>

definition empty_chunk :: "nat \<Rightarrow> chunk" where
  "empty_chunk capacity =
     \<lparr>chunk_dtype = ''uint8'', htype = ''generic'', compression = Some ''lz4'',
      is_text_like = False, is_byte_compression = True, max_chunk_size = capacity,
      data_bytes = [], shapes = [], byte_positions_encoder = [], shapes_encoder = []\<rparr>"

text \<open>The bytes \<open>serialize_sample\<close> produces for a sample (none when it raises).\<close>

definition serialized_bytes :: "collaborators \<Rightarrow> chunk \<Rightarrow> sample_value \<Rightarrow> bytes" where
  "serialized_bytes env self x =
     (case serialize_sample env self x of Inl e \<Rightarrow> [] | Inr (b, sh) \<Rightarrow> b)"

text \<open>The number of samples a call that returned \<open>n\<close> has visited: the rejected sample
  at index \<open>n\<close> counts when there is one.\<close>

definition visited :: "nat \<Rightarrow> sample_value list \<Rightarrow> nat" where
  "visited n incoming_samples = (if n < length incoming_samples then Suc n else n)"

text \<open>A flat array of bytes, as \<open>np.array([...], dtype="uint8")\<close>.\<close>

definition uint8_array :: "bytes \<Rightarrow> ndarray" where
  "uint8_array b = \<lparr>arr_dtype = ''uint8'', arr_shape = [length b], arr_data = b\<rparr>"

section \<open>hub/core/linked_chunk_engine.py: video samples of a linked tensor\<close>

text \<open>
  The \<open>index\<close> argument of \<open>get_video_sample\<close>: a bare Python int, or an \<open>Index\<close> object
  with its list of entries (\<open>index.values\<close>), each holding an int or a slice
  (\<open>entry.value\<close>).
\<close>

datatype index_value = Value_int int | Value_slice "int option" "int option" "int option"

datatype py_index = Bare_int int | Index "index_value list"

text \<open>
  The collaborators of \<open>get_video_sample\<close>, none of which is among the sources: the
  superclass's \<open>get_basic_sample\<close> (its first component, the path), the creds encoder,
  the link creds (the storage provider of a creds key and provider type, asked for the
  presigned URL of a path), the probe of a video's shape, \<open>normalize_index\<close> and the
  windowed decoder. Each may raise.
\<close>

record link_collaborators =
  get_basic_sample_path :: "nat \<Rightarrow> py_index \<Rightarrow> error + string"
  get_encoded_creds_key :: "nat \<Rightarrow> error + nat"
  get_creds_key :: "nat \<Rightarrow> error + string"
  get_presigned_url :: "string \<Rightarrow> string \<Rightarrow> string \<Rightarrow> error + string"
  read_video_shape :: "string \<Rightarrow> error + nat list"
  normalize_index :: "index_value option \<Rightarrow> nat \<Rightarrow> error + (int \<times> int \<times> int \<times> bool)"
  decompress_video :: "string \<Rightarrow> int \<Rightarrow> int \<Rightarrow> int \<Rightarrow> bool \<Rightarrow> error + ndarray"

definition startswith :: "string \<Rightarrow> string \<Rightarrow> bool" where
  "startswith s p = (take (length p) s = p)"

text \<open>\<open>a.squeeze(0)\<close> returns a new array without the first axis, which must have
  length one; the array \<open>a\<close> itself is not changed.\<close>

definition np_squeeze0 :: "ndarray \<Rightarrow> error + ndarray" where
  "np_squeeze0 a =
     (case arr_shape a of
        [] \<Rightarrow> Inl ValueError
      | d # ds \<Rightarrow> if d = 1 then Inr (a\<lparr>arr_shape := ds\<rparr>) else Inl ValueError)"

text \<open>
  \<open>get_video_sample\<close>, statement by statement. \<open>index.values\<close> of a bare int raises
  AttributeError; the result of \<open>video_sample.squeeze(0)\<close> is not assigned, so the value
  returned is \<open>video_sample\<close>. The lazy loading of the creds encoder is left out.
\<close>

definition get_video_sample :: "link_collaborators \<Rightarrow> nat \<Rightarrow> py_index \<Rightarrow> error + ndarray" where
  "get_video_sample env global_sample_index index =
     (case get_basic_sample_path env global_sample_index index of
        Inl e \<Rightarrow> Inl e
      | Inr sample_path \<Rightarrow>
     (case get_encoded_creds_key env global_sample_index of
        Inl e \<Rightarrow> Inl e
      | Inr sample_creds_encoded \<Rightarrow>
     (case get_creds_key env sample_creds_encoded of
        Inl e \<Rightarrow> Inl e
      | Inr sample_creds_key \<Rightarrow>
     (case (if startswith sample_path ''gcs://'' \<or> startswith sample_path ''gcp://''
               \<or> startswith sample_path ''s3://''
            then get_presigned_url env sample_creds_key
                   (if startswith sample_path ''s3://'' then ''s3'' else ''gcs'') sample_path
            else Inr sample_path) of
        Inl e \<Rightarrow> Inl e
      | Inr url \<Rightarrow>
     (let squeeze = (case index of Bare_int k \<Rightarrow> True | Index vals \<Rightarrow> False)
      in case read_video_shape env url of
        Inl e \<Rightarrow> Inl e
      | Inr video_shape \<Rightarrow>
     (case index of
        Bare_int k \<Rightarrow> Inl AttributeError
      | Index vals \<Rightarrow>
     (let sub_index = (if length vals > 1 then Some (vals ! 1) else None)
      in case video_shape of
        [] \<Rightarrow> Inl IndexError
      | n_frames # rest \<Rightarrow>
     (case normalize_index env sub_index n_frames of
        Inl e \<Rightarrow> Inl e
      | Inr (start, stop, step, reverse) \<Rightarrow>
     (case decompress_video env url start stop step reverse of
        Inl e \<Rightarrow> Inl e
      | Inr video_sample \<Rightarrow>
          if squeeze then
            (case np_squeeze0 video_sample of
               Inl e \<Rightarrow> Inl e
             | Inr squeezed \<Rightarrow> Inr video_sample)
          else Inr video_sample)))))))))"

text \<open>
  Collaborators to run \<open>get_video_sample\<close> with: a local video of ten frames of one
  pixel, whose decoder returns the frames \<open>start..<stop\<close> (all zero); only forward indices and
  slices of step one are normalized.
\<close>

definition local_video :: link_collaborators where
  "local_video =
     \<lparr>get_basic_sample_path = (\<lambda>g i. Inr ''clip.mp4''),
      get_encoded_creds_key = (\<lambda>g. Inr 0),
      get_creds_key = (\<lambda>k. Inr ''''),
      get_presigned_url = (\<lambda>k p path. Inr path),
      read_video_shape = (\<lambda>url. Inr [10, 1, 1, 3]),
      normalize_index = (\<lambda>sub n. case sub of
                           None \<Rightarrow> Inr (0, int n, 1, False)
                         | Some (Value_int k) \<Rightarrow> Inr (k, k + 1, 1, False)
                         | Some (Value_slice a b c) \<Rightarrow>
                             Inr (case a of None \<Rightarrow> 0 | Some x \<Rightarrow> x,
                                  case b of None \<Rightarrow> int n | Some y \<Rightarrow> y,
                                  case c of None \<Rightarrow> 1 | Some z \<Rightarrow> z, False)),
      decompress_video = (\<lambda>url start stop step reverse.
                           Inr \<lparr>arr_dtype = ''uint8'', arr_shape = [nat (stop - start), 1, 1, 3],
                                arr_data = replicate (nat (stop - start) * 3) 0\<rparr>)\<rparr>"

chapter \<open>Properties\<close>

section \<open>Properties of chunks.py\<close>

lemma hexval_hexdigit: "d < 16 \<Longrightarrow> hexval (hexdigit d) = Some d"
proof -
  have "\<forall>d \<in> set [0..<16]. hexval (hexdigit d) = Some d"
    by code_simp
  then show "d < 16 \<Longrightarrow> hexval (hexdigit d) = Some d"
    by simp
qed

lemma hexdigit_not_space: "d < 16 \<Longrightarrow> \<not> is_space (hexdigit d)"
proof -
  have "\<forall>d \<in> set [0..<16]. \<not> is_space (hexdigit d)"
    by code_simp
  then show "d < 16 \<Longrightarrow> \<not> is_space (hexdigit d)"
    by simp
qed

lemma hexdigit_not_underscore: "d < 16 \<Longrightarrow> hexdigit d \<noteq> CHR ''_''"
  using hexval_hexdigit [of d] by (auto simp: hexval_def)

lemma to_hex_not_empty: "to_hex n \<noteq> []"
  by (subst to_hex.simps) simp

lemma digits16_snoc:
  "d < 16 \<Longrightarrow> digits16 acc xs = Some a \<Longrightarrow> \<forall>c \<in> set xs. c \<noteq> CHR ''_''
     \<Longrightarrow> digits16 acc (xs @ [hexdigit d]) = Some (16 * a + d)"
proof (induction xs arbitrary: acc)
  case Nil
  then show ?case
    by (simp add: hexval_hexdigit hexdigit_not_underscore)
next
  case (Cons c cs)
  then show ?case
    by (auto split: option.splits)
qed

lemma to_hex_no_underscore: "\<forall>c \<in> set (to_hex n). c \<noteq> CHR ''_''"
proof (induction n rule: to_hex.induct)
  case (1 n)
  show ?case
  proof (cases "n < 16")
    case True
    then show ?thesis
      by (subst to_hex.simps) (simp add: hexdigit_not_underscore)
  next
    case False
    with 1 show ?thesis
      by (subst to_hex.simps) (simp add: hexdigit_not_underscore)
  qed
qed

lemma digits16_to_hex: "digits16 0 (to_hex n) = Some n"
proof (induction n rule: to_hex.induct)
  case (1 n)
  show ?case
  proof (cases "n < 16")
    case True
    then show ?thesis
      by (subst to_hex.simps) (simp add: hexval_hexdigit hexdigit_not_underscore)
  next
    case False
    then have ih: "digits16 0 (to_hex (n div 16)) = Some (n div 16)"
      using 1 by simp
    have "digits16 0 (to_hex (n div 16) @ [hexdigit (n mod 16)]) = Some (16 * (n div 16) + n mod 16)"
      by (rule digits16_snoc [OF _ ih to_hex_no_underscore]) simp
    with False show ?thesis
      by (subst to_hex.simps) simp
  qed
qed

lemma last_to_hex_not_space: "\<not> is_space (last (to_hex n))"
  by (subst to_hex.simps) (simp add: hexdigit_not_space)

lemma strip_unchanged:
  assumes "s \<noteq> []" and "\<not> is_space (hd s)" and "\<not> is_space (last s)"
  shows "strip s = s"
proof -
  have front: "dropWhile is_space s = s"
    using assms by (cases s) simp_all
  have r: "rev s = last s # rev (butlast s)"
    using assms(1) by (induction s rule: rev_induct) simp_all
  have "dropWhile is_space (last s # rev (butlast s)) = last s # rev (butlast s)"
    using assms(3) by simp
  then have rear: "dropWhile is_space (rev s) = rev s"
    by (simp only: r)
  show ?thesis
    by (simp add: strip_def front rear)
qed

lemma strip_0x_to_hex: "strip (''0x'' @ to_hex n) = ''0x'' @ to_hex n"
proof (rule strip_unchanged)
  show "''0x'' @ to_hex n \<noteq> []"
    by simp
  show "\<not> is_space (hd (''0x'' @ to_hex n))"
    by (simp add: is_space_def)
  show "\<not> is_space (last (''0x'' @ to_hex n))"
    using last_to_hex_not_space [of n] to_hex_not_empty [of n] by simp
qed

lemma py_int16_0x_to_hex: "py_int16 (''0x'' @ to_hex n) = Inr (int n)"
proof -
  have "py_int16 (''0x'' @ to_hex n) =
          (let t = ''0x'' @ to_hex n;
               neg = (t \<noteq> [] \<and> hd t = CHR ''-'');
               u = (if t \<noteq> [] \<and> (hd t = CHR ''-'' \<or> hd t = CHR ''+'') then tl t else t);
               pre = (take 2 u = ''0x'' \<or> take 2 u = ''0X'');
               v = (if pre then drop 2 u else u)
           in if v = [] \<or> (\<not> pre \<and> hd v = CHR ''_'') then Inl ValueError
              else (case digits16 0 v of
                      None \<Rightarrow> Inl ValueError
                    | Some n \<Rightarrow> Inr (if neg then - int n else int n)))"
    unfolding py_int16_def strip_0x_to_hex ..
  then show ?thesis
    by (simp add: Let_def to_hex_not_empty digits16_to_hex)
qed

text \<open>
  C6. For every chunk identifier that can be generated (a non-negative integer, as
  \<open>uuid.int >> UUID_SHIFT_AMOUNT\<close> always is), the name is the lowercase hexadecimal text
  of the identifier without prefix, and \<open>chunk_id_from_name\<close> parses the name back to
  the identifier.
\<close>

theorem chunk_id_name_roundtrip:
  "0 \<le> ident \<Longrightarrow>
     chunk_name_from_id ident = to_hex (nat ident)
     \<and> chunk_id_from_name (chunk_name_from_id ident) = Inr ident"
proof -
  assume nonneg: "0 \<le> ident"
  then have name: "chunk_name_from_id ident = to_hex (nat ident)"
    by (simp add: chunk_name_from_id_def py_hex_def)
  have "chunk_id_from_name (to_hex (nat ident)) = Inr (int (nat ident))"
    unfolding chunk_id_from_name_def by (rule py_int16_0x_to_hex)
  with nonneg name show ?thesis
    by simp
qed

theorem chunk_id_name_roundtrip_witness:
  "(0::int) \<le> 3735928559
     \<and> chunk_name_from_id 3735928559 = ''deadbeef''
     \<and> chunk_id_from_name (chunk_name_from_id 3735928559) = Inr 3735928559"
proof -
  have digits: "to_hex (nat 3735928559) = ''deadbeef''"
    by (simp add: to_hex.simps hexdigit_def)
  have nonneg: "(0::int) \<le> 3735928559"
    by simp
  note roundtrip = chunk_id_name_roundtrip [OF nonneg]
  have name: "chunk_name_from_id 3735928559 = ''deadbeef''"
    by (rule trans [OF conjunct1 [OF roundtrip] digits])
  show ?thesis
    by (rule conjI [OF nonneg conjI [OF name conjunct2 [OF roundtrip]]])
qed

subsection \<open>The reverse mapping to a UUID\<close>

lemma short_chunk_name: "chunk_name_from_id 19088743 = ''1234567''"
  by (simp add: chunk_name_from_id_def py_hex_def to_hex.simps hexdigit_def)

lemma short_padded_name_refused:
  "uuid_from_hex ''1234567000000000000000000000000'' = Inl ValueError"
  by (simp add: uuid_from_hex_def remove_sub.simps is_brace_def)

lemma short_id_is_generated:
  "is_uuid4 1512366075203566475363147076673981935
     \<and> random_chunk_id 96 uint32 1512366075203566475363147076673981935 = Inr 19088743"
  by (simp add: is_uuid4_def random_chunk_id_def cast_to_encoding_dtype_def uint32_def
      drop_bit_eq_div)

lemma full_width_chunk_name: "chunk_name_from_id 3735928559 = ''deadbeef''"
  by (simp add: chunk_name_from_id_def py_hex_def to_hex.simps hexdigit_def)

lemma full_width_padded_name_accepted:
  "uuid_from_hex ''deadbeef000000000000000000000000'' = Inr 295990755014133383690938178081940045824"
  by (simp add: uuid_from_hex_def remove_sub.simps is_brace_def py_int16_def strip_def
      is_space_def hexval_def)

text \<open>
  An identifier whose name has all eight digits is mapped to the UUID with those digits in
  front: the padding is right for such a name.
\<close>

lemma chunk_uuid_from_id_full_width:
  "chunk_uuid_from_id 3735928559 = Inr (3735928559 * 2 ^ 96)"
proof -
  have "chunk_uuid_from_id 3735928559 = uuid_from_hex ''deadbeef000000000000000000000000''"
    unfolding chunk_uuid_from_id_def full_width_chunk_name by simp
  then show ?thesis
    by (simp only: full_width_padded_name_accepted) simp
qed

text \<open>
  C7. The claim is that the padded name of every identifier \<open>random_chunk_id\<close> produces
  is a well-formed 128-bit hexadecimal string, so that \<open>chunk_uuid_from_id\<close> never fails.
  The code does not do that: \<open>hex\<close> drops leading zeros, so the name of an identifier
  below \<open>2 ^ 28\<close> has fewer than eight digits, the padded name fewer than 32, and
  \<open>UUID(hex=...)\<close> raises ValueError. The identifier \<open>0x01234567\<close> is what
  \<open>random_chunk_id\<close> returns for the version-4 UUID
  \<open>01234567-89ab-4def-8123-456789abcdef\<close>; its name is \<open>1234567\<close>.
\<close>

theorem chunk_uuid_from_id_short_name_fails:
  "is_uuid4 1512366075203566475363147076673981935
     \<and> random_chunk_id 96 uint32 1512366075203566475363147076673981935 = Inr 19088743
     \<and> chunk_name_from_id 19088743 = ''1234567''
     \<and> chunk_uuid_from_id 19088743 = Inl ValueError"
proof -
  have "chunk_uuid_from_id 19088743 = uuid_from_hex ''1234567000000000000000000000000''"
    unfolding chunk_uuid_from_id_def short_chunk_name by simp
  then have "chunk_uuid_from_id 19088743 = Inl ValueError"
    by (simp only: short_padded_name_refused)
  with short_id_is_generated short_chunk_name show ?thesis
    by (simp only: simp_thms)
qed

section \<open>Properties of transform.py\<close>

subsection \<open>\<open>merge_chunks\<close>\<close>

lemma merge_chunks_entries_takeWhile:
  "merge_chunks_entries f l off es =
     map (\<lambda>e. e\<lparr>chunk_names := [l], start_byte := start_byte e + off, end_byte := end_byte e + off\<rparr>)
       (takeWhile (\<lambda>e. chunk_names e = [f]) es)
     @ dropWhile (\<lambda>e. chunk_names e = [f]) es"
  by (induction es) simp_all

lemma get_chunk_key_inject: "get_chunk_key t a = get_chunk_key t b \<longleftrightarrow> a = b"
  by (simp add: get_chunk_key_def)

text \<open>
  C5. When the first chunk is below the target and both chunks fit into one, and the two
  chunks are two stored objects (both keys are present and the names differ), the call
  raises nothing; it reads the last and the first chunk, deletes the first chunk's object
  and stores the last chunk's bytes followed by the first chunk's under the last chunk's
  key, so the store holds one object where it held two and every other object is as it
  was. In the meta, the leading run of entries whose \<open>chunk_names\<close> is exactly
  \<open>[first_chunk_name]\<close> is repointed to the last chunk with \<open>start_byte\<close> and \<open>end_byte\<close>
  raised by \<open>last_chunk_size\<close>; the entries from the first other entry on are unchanged.
\<close>

theorem merge_chunks_merges_corner_chunks:
  assumes "first_chunk_size < chunk_min_target"
    and "first_chunk_size + last_chunk_size \<le> DEFAULT_MAX_CHUNK_SIZE"
    and "objects storage (get_chunk_key tensor first_chunk_name) = Some first_chunk_bytes"
    and "objects storage (get_chunk_key tensor last_chunk_name) = Some last_chunk_bytes"
    and "first_chunk_name \<noteq> last_chunk_name"
  shows "merge_chunks DEFAULT_MAX_CHUNK_SIZE chunk_min_target tensor storage current_meta
           first_chunk_name first_chunk_size last_chunk_name last_chunk_size =
         (Inr (),
          storage\<lparr>objects := (objects storage)
                     (get_chunk_key tensor first_chunk_name := None,
                      get_chunk_key tensor last_chunk_name \<mapsto> last_chunk_bytes @ first_chunk_bytes),
                   accesses := accesses storage @
                     [Get_item (get_chunk_key tensor last_chunk_name),
                      Get_item (get_chunk_key tensor first_chunk_name),
                      Del_item (get_chunk_key tensor first_chunk_name),
                      Set_item (get_chunk_key tensor last_chunk_name)]\<rparr>,
          current_meta\<lparr>entries :=
            map (\<lambda>e. e\<lparr>chunk_names := [last_chunk_name],
                        start_byte := start_byte e + last_chunk_size,
                        end_byte := end_byte e + last_chunk_size\<rparr>)
              (takeWhile (\<lambda>e. chunk_names e = [first_chunk_name]) (entries current_meta))
            @ dropWhile (\<lambda>e. chunk_names e = [first_chunk_name]) (entries current_meta)\<rparr>)
       \<and> dom (objects (fst (snd (merge_chunks DEFAULT_MAX_CHUNK_SIZE chunk_min_target tensor storage
             current_meta first_chunk_name first_chunk_size last_chunk_name last_chunk_size)))) =
           dom (objects storage) - {get_chunk_key tensor first_chunk_name}"
proof -
  have keys: "get_chunk_key tensor first_chunk_name \<noteq> get_chunk_key tensor last_chunk_name"
    using assms(5) by (simp add: get_chunk_key_inject)
  have run: "merge_chunks DEFAULT_MAX_CHUNK_SIZE chunk_min_target tensor storage current_meta
           first_chunk_name first_chunk_size last_chunk_name last_chunk_size =
         (Inr (),
          storage\<lparr>objects := (objects storage)
                     (get_chunk_key tensor first_chunk_name := None,
                      get_chunk_key tensor last_chunk_name \<mapsto> last_chunk_bytes @ first_chunk_bytes),
                   accesses := accesses storage @
                     [Get_item (get_chunk_key tensor last_chunk_name),
                      Get_item (get_chunk_key tensor first_chunk_name),
                      Del_item (get_chunk_key tensor first_chunk_name),
                      Set_item (get_chunk_key tensor last_chunk_name)]\<rparr>,
          current_meta\<lparr>entries :=
            map (\<lambda>e. e\<lparr>chunk_names := [last_chunk_name],
                        start_byte := start_byte e + last_chunk_size,
                        end_byte := end_byte e + last_chunk_size\<rparr>)
              (takeWhile (\<lambda>e. chunk_names e = [first_chunk_name]) (entries current_meta))
            @ dropWhile (\<lambda>e. chunk_names e = [first_chunk_name]) (entries current_meta)\<rparr>)"
    using assms(1-4)
    by (simp add: merge_chunks_def storage_getitem_def storage_delitem_def storage_setitem_def
        merge_chunks_entries_takeWhile Let_def)
  have "dom ((objects storage)
               (get_chunk_key tensor first_chunk_name := None,
                get_chunk_key tensor last_chunk_name \<mapsto> last_chunk_bytes @ first_chunk_bytes)) =
        dom (objects storage) - {get_chunk_key tensor first_chunk_name}"
    using assms(4) keys by auto
  with run show ?thesis
    by simp
qed

theorem merge_chunks_merges_corner_chunks_witness:
  "(10::int) < 16 \<and> (10::int) + 20 \<le> 32
   \<and> merge_chunks 32 16 ''t''
        \<lparr>objects = [''t/chunks/b'' \<mapsto> [7, 8], ''t/chunks/a'' \<mapsto> [1, 2, 3]], accesses = []\<rparr>
        \<lparr>entries =
           [\<lparr>chunk_names = [''b''], start_byte = 0, end_byte = 1, entry_shape = [1]\<rparr>,
            \<lparr>chunk_names = [''b'', ''c''], start_byte = 1, end_byte = 5, entry_shape = [6]\<rparr>,
            \<lparr>chunk_names = [''b''], start_byte = 5, end_byte = 6, entry_shape = [1]\<rparr>]\<rparr>
        ''b'' 10 ''a'' 20 =
      (Inr (),
       \<lparr>objects = [''t/chunks/a'' \<mapsto> [1, 2, 3, 7, 8]],
        accesses = [Get_item ''t/chunks/a'', Get_item ''t/chunks/b'', Del_item ''t/chunks/b'',
                    Set_item ''t/chunks/a'']\<rparr>,
       \<lparr>entries =
          [\<lparr>chunk_names = [''a''], start_byte = 20, end_byte = 21, entry_shape = [1]\<rparr>,
           \<lparr>chunk_names = [''b'', ''c''], start_byte = 1, end_byte = 5, entry_shape = [6]\<rparr>,
           \<lparr>chunk_names = [''b''], start_byte = 5, end_byte = 6, entry_shape = [1]\<rparr>]\<rparr>)"
proof -
  have objs: "[''t/chunks/b'' \<mapsto> [7, 8 :: nat], ''t/chunks/a'' \<mapsto> [1, 2, 3]]
                (''t/chunks/b'' := None, ''t/chunks/a'' \<mapsto> [1, 2, 3] @ [7, 8]) =
              [''t/chunks/a'' \<mapsto> [1, 2, 3, 7, 8]]"
    by (rule ext) simp
  have "merge_chunks 32 16 ''t''
        \<lparr>objects = [''t/chunks/b'' \<mapsto> [7, 8], ''t/chunks/a'' \<mapsto> [1, 2, 3]], accesses = []\<rparr>
        \<lparr>entries =
           [\<lparr>chunk_names = [''b''], start_byte = 0, end_byte = 1, entry_shape = [1]\<rparr>,
            \<lparr>chunk_names = [''b'', ''c''], start_byte = 1, end_byte = 5, entry_shape = [6]\<rparr>,
            \<lparr>chunk_names = [''b''], start_byte = 5, end_byte = 6, entry_shape = [1]\<rparr>]\<rparr>
        ''b'' 10 ''a'' 20 =
      (Inr (),
       \<lparr>objects = [''t/chunks/a'' \<mapsto> [1, 2, 3, 7, 8]],
        accesses = [Get_item ''t/chunks/a'', Get_item ''t/chunks/b'', Del_item ''t/chunks/b'',
                    Set_item ''t/chunks/a'']\<rparr>,
       \<lparr>entries =
          [\<lparr>chunk_names = [''a''], start_byte = 20, end_byte = 21, entry_shape = [1]\<rparr>,
           \<lparr>chunk_names = [''b'', ''c''], start_byte = 1, end_byte = 5, entry_shape = [6]\<rparr>,
           \<lparr>chunk_names = [''b''], start_byte = 5, end_byte = 6, entry_shape = [1]\<rparr>]\<rparr>)"
    using merge_chunks_merges_corner_chunks [of 10 16 20 32
        "\<lparr>objects = [''t/chunks/b'' \<mapsto> [7, 8], ''t/chunks/a'' \<mapsto> [1, 2, 3]], accesses = []\<rparr>"
        "''t''" "''b''" "[7, 8]" "''a''" "[1, 2, 3]"
        "\<lparr>entries =
           [\<lparr>chunk_names = [''b''], start_byte = 0, end_byte = 1, entry_shape = [1]\<rparr>,
            \<lparr>chunk_names = [''b'', ''c''], start_byte = 1, end_byte = 5, entry_shape = [6]\<rparr>,
            \<lparr>chunk_names = [''b''], start_byte = 5, end_byte = 6, entry_shape = [1]\<rparr>]\<rparr>"]
    by (simp add: get_chunk_key_def objs)
  then show ?thesis
    by simp
qed

text \<open>
  C10. When the condition of \<open>merge_chunks\<close> fails (the first chunk is not below the
  target, or the two chunks together exceed the maximum chunk size), the call raises
  nothing and changes nothing: the store's objects and its list of accesses (no read, no
  write, no delete) and every entry of the meta are as they were.
\<close>

theorem merge_chunks_noop:
  "chunk_min_target \<le> first_chunk_size \<or> DEFAULT_MAX_CHUNK_SIZE < first_chunk_size + last_chunk_size
     \<Longrightarrow> merge_chunks DEFAULT_MAX_CHUNK_SIZE chunk_min_target tensor storage current_meta
           first_chunk_name first_chunk_size last_chunk_name last_chunk_size =
         (Inr (), storage, current_meta)"
  by (auto simp: merge_chunks_def)

theorem merge_chunks_noop_witness:
  "((16::int) \<le> 16 \<or> (32::int) < 16 + 20)
   \<and> merge_chunks 32 16 ''t''
        \<lparr>objects = [''t/chunks/b'' \<mapsto> [7, 8], ''t/chunks/a'' \<mapsto> [1, 2, 3]], accesses = []\<rparr>
        \<lparr>entries = [\<lparr>chunk_names = [''b''], start_byte = 0, end_byte = 1, entry_shape = [1]\<rparr>]\<rparr>
        ''b'' 16 ''a'' 20 =
      (Inr (),
       \<lparr>objects = [''t/chunks/b'' \<mapsto> [7, 8], ''t/chunks/a'' \<mapsto> [1, 2, 3]], accesses = []\<rparr>,
       \<lparr>entries = [\<lparr>chunk_names = [''b''], start_byte = 0, end_byte = 1, entry_shape = [1]\<rparr>]\<rparr>)"
  using merge_chunks_noop [of 16 16 32 20 "''t''"
      "\<lparr>objects = [''t/chunks/b'' \<mapsto> [7, 8], ''t/chunks/a'' \<mapsto> [1, 2, 3]], accesses = []\<rparr>"
      "\<lparr>entries = [\<lparr>chunk_names = [''b''], start_byte = 0, end_byte = 1, entry_shape = [1]\<rparr>]\<rparr>"
      "''b''" "''a''"]
  by simp

subsection \<open>\<open>merge_tensor_metas\<close>\<close>

lemma merge_tensor_meta_skips:
  "max_shape d \<noteq> [] \<Longrightarrow> dtype d \<noteq> None \<Longrightarrow> min_shape w = [] \<Longrightarrow> merge_tensor_meta d w = Inr d"
  by (auto simp: merge_tensor_meta_def)

lemma merge_tensor_meta_adopts:
  "max_shape d = [] \<Longrightarrow>
     merge_tensor_meta d w =
       Inr (d\<lparr>dtype := dtype w, length_meta := length_meta d + length_meta w,
              max_shape := max_shape w, min_shape := min_shape w\<rparr>)"
  by (simp add: merge_tensor_meta_def)

text \<open>
  C9. A worker that contributed no samples has an empty min-shape vector. Merging its
  meta into a destination that has shape bounds and a dtype is skipped: the destination
  meta is unchanged. A destination that has no bounds or no dtype yet is not left as it
  was: it takes the worker's dtype, adds the worker's length and takes the worker's
  bounds. In the scenario, an empty destination merged with a worker of length 5 and
  bounds [2,2]..[2,2] and then with a worker without samples ends with length 5 and
  bounds [2,2]..[2,2], through the loop over the workers and through
  \<open>merge_tensor_metas\<close> itself.
\<close>

theorem merge_tensor_metas_empty_worker:
  assumes "min_shape w = []"
  shows "(max_shape d \<noteq> [] \<and> dtype d \<noteq> None \<longrightarrow> merge_tensor_meta d w = Inr d)
       \<and> (max_shape d = [] \<or> dtype d = None \<longrightarrow>
            merge_tensor_meta d w =
              Inr (d\<lparr>dtype := dtype w, length_meta := length_meta d + length_meta w,
                     max_shape := max_shape w, min_shape := []\<rparr>))
       \<and> merge_tensor_metas_workers
            \<lparr>dtype = None, length_meta = 0, max_shape = [], min_shape = []\<rparr>
            [\<lparr>dtype = Some dt, length_meta = 5, max_shape = [2, 2], min_shape = [2, 2]\<rparr>, w] =
          Inr \<lparr>dtype = Some dt, length_meta = 5, max_shape = [2, 2], min_shape = [2, 2]\<rparr>
       \<and> merge_tensor_metas
            [\<lambda>t. \<lparr>dtype = Some dt, length_meta = 5, max_shape = [2, 2], min_shape = [2, 2]\<rparr>,
             \<lambda>t. w]
            [tensor]
            (\<lambda>t. \<lparr>dtype = None, length_meta = 0, max_shape = [], min_shape = []\<rparr>) =
          Inr ((\<lambda>t. \<lparr>dtype = None, length_meta = 0, max_shape = [], min_shape = []\<rparr>)
                 (tensor := \<lparr>dtype = Some dt, length_meta = 5, max_shape = [2, 2],
                              min_shape = [2, 2]\<rparr>))"
proof -
  have skip: "max_shape d \<noteq> [] \<and> dtype d \<noteq> None \<longrightarrow> merge_tensor_meta d w = Inr d"
    using assms by (simp add: merge_tensor_meta_skips)
  have adopt: "max_shape d = [] \<or> dtype d = None \<longrightarrow>
            merge_tensor_meta d w =
              Inr (d\<lparr>dtype := dtype w, length_meta := length_meta d + length_meta w,
                     max_shape := max_shape w, min_shape := []\<rparr>)"
    using assms by (auto simp: merge_tensor_meta_def)
  have first: "merge_tensor_meta \<lparr>dtype = None, length_meta = 0, max_shape = [], min_shape = []\<rparr>
                 \<lparr>dtype = Some dt, length_meta = 5, max_shape = [2, 2], min_shape = [2, 2]\<rparr> =
               Inr \<lparr>dtype = Some dt, length_meta = 5, max_shape = [2, 2], min_shape = [2, 2]\<rparr>"
    by (simp add: merge_tensor_meta_adopts)
  have second: "merge_tensor_meta
                  \<lparr>dtype = Some dt, length_meta = 5, max_shape = [2, 2], min_shape = [2, 2]\<rparr> w =
                Inr \<lparr>dtype = Some dt, length_meta = 5, max_shape = [2, 2], min_shape = [2, 2]\<rparr>"
    using assms by (simp add: merge_tensor_meta_skips)
  have loop: "merge_tensor_metas_workers
            \<lparr>dtype = None, length_meta = 0, max_shape = [], min_shape = []\<rparr>
            [\<lparr>dtype = Some dt, length_meta = 5, max_shape = [2, 2], min_shape = [2, 2]\<rparr>, w] =
          Inr \<lparr>dtype = Some dt, length_meta = 5, max_shape = [2, 2], min_shape = [2, 2]\<rparr>"
    by (simp add: first second)
  have all: "merge_tensor_metas
            [\<lambda>t. \<lparr>dtype = Some dt, length_meta = 5, max_shape = [2, 2], min_shape = [2, 2]\<rparr>,
             \<lambda>t. w]
            [tensor]
            (\<lambda>t. \<lparr>dtype = None, length_meta = 0, max_shape = [], min_shape = []\<rparr>) =
          Inr ((\<lambda>t. \<lparr>dtype = None, length_meta = 0, max_shape = [], min_shape = []\<rparr>)
                 (tensor := \<lparr>dtype = Some dt, length_meta = 5, max_shape = [2, 2],
                              min_shape = [2, 2]\<rparr>))"
    by (simp add: first second)
  from skip adopt loop all show ?thesis
    by (intro conjI)
qed

theorem merge_tensor_metas_empty_worker_witness:
  "merge_tensor_meta
     \<lparr>dtype = Some ''uint8'', length_meta = 5, max_shape = [2, 2], min_shape = [2, 2]\<rparr>
     \<lparr>dtype = None, length_meta = 0, max_shape = [], min_shape = []\<rparr> =
   Inr \<lparr>dtype = Some ''uint8'', length_meta = 5, max_shape = [2, 2], min_shape = [2, 2]\<rparr>
   \<and> merge_tensor_meta
     \<lparr>dtype = Some ''uint8'', length_meta = 0, max_shape = [], min_shape = []\<rparr>
     \<lparr>dtype = None, length_meta = 0, max_shape = [], min_shape = []\<rparr> =
   Inr \<lparr>dtype = None, length_meta = 0, max_shape = [], min_shape = []\<rparr>
   \<and> merge_tensor_metas_workers
        \<lparr>dtype = None, length_meta = 0, max_shape = [], min_shape = []\<rparr>
        [\<lparr>dtype = Some ''uint8'', length_meta = 5, max_shape = [2, 2], min_shape = [2, 2]\<rparr>,
         \<lparr>dtype = None, length_meta = 0, max_shape = [], min_shape = []\<rparr>] =
      Inr \<lparr>dtype = Some ''uint8'', length_meta = 5, max_shape = [2, 2], min_shape = [2, 2]\<rparr>"
proof -
  have w: "min_shape \<lparr>dtype = None, length_meta = 0, max_shape = [], min_shape = []\<rparr> = []"
    by simp
  show ?thesis
    using merge_tensor_metas_empty_worker [OF w,
        of "\<lparr>dtype = Some ''uint8'', length_meta = 5, max_shape = [2, 2], min_shape = [2, 2]\<rparr>"
           "''uint8''" "''images''"]
      merge_tensor_metas_empty_worker [OF w,
        of "\<lparr>dtype = Some ''uint8'', length_meta = 0, max_shape = [], min_shape = []\<rparr>"
           "''uint8''" "''images''"]
    by simp
qed

text \<open>
  C9 without the condition on the destination does not hold: a destination declared with
  dtype uint8 that has no samples yet, merged with a worker without samples and without
  a dtype, loses its dtype.
\<close>

theorem empty_worker_changes_empty_destination:
  "min_shape \<lparr>dtype = None, length_meta = 0, max_shape = [], min_shape = []\<rparr> = []
   \<and> merge_tensor_meta
         \<lparr>dtype = Some ''uint8'', length_meta = 0, max_shape = [], min_shape = []\<rparr>
         \<lparr>dtype = None, length_meta = 0, max_shape = [], min_shape = []\<rparr> =
       Inr \<lparr>dtype = None, length_meta = 0, max_shape = [], min_shape = []\<rparr>
   \<and> merge_tensor_meta
         \<lparr>dtype = Some ''uint8'', length_meta = 0, max_shape = [], min_shape = []\<rparr>
         \<lparr>dtype = None, length_meta = 0, max_shape = [], min_shape = []\<rparr> \<noteq>
       Inr \<lparr>dtype = Some ''uint8'', length_meta = 0, max_shape = [], min_shape = []\<rparr>"
  by (simp add: merge_tensor_meta_def)

subsection \<open>\<open>merge_chunk_id_encoders\<close>\<close>

lemma merge_encoded_ids_rows:
  "rows_of (fst (merge_encoded_ids off d ids)) =
     rows_of d @ map (\<lambda>r. (fst r, store_encoding_dtype (snd r + off))) ids"
proof (induction ids arbitrary: d)
  case Nil
  then show ?case by simp
next
  case (Cons a ids)
  show ?case
  proof (cases "encoded_ids d")
    case None
    then show ?thesis
      using Cons [of "d\<lparr>encoded_ids := Some [(fst a, store_encoding_dtype (snd a + off))]\<rparr>"]
      by (simp add: rows_of_def Let_def case_prod_beta)
  next
    case (Some old)
    then show ?thesis
      using Cons [of "d\<lparr>encoded_ids := Some (old @ [(fst a, store_encoding_dtype (snd a + off))])\<rparr>"]
      by (simp add: rows_of_def Let_def case_prod_beta)
  qed
qed

lemma merge_encoded_ids_worker:
  "snd (merge_encoded_ids off d ids) = map (\<lambda>r. (fst r, store_encoding_dtype (snd r + off))) ids"
  by (induction ids arbitrary: d) (simp_all add: Let_def case_prod_beta)

lemma upt_shift: "map f [0..<Suc n] = f 0 # map (\<lambda>i. f (Suc i)) [0..<n]"
  by (simp add: map_upt_Suc del: upt_Suc)

lemma merge_workers_rows:
  "rows_of (fst (merge_chunk_id_encoders_workers ns off d ws)) =
     rows_of d @
     concat (map (\<lambda>i. map (\<lambda>r. (fst r, store_encoding_dtype
                                          (snd r + (off + sum_list (map ns (take i ws))))))
                        (rows_of (ws ! i)))
               [0..<length ws])"
proof (induction ws arbitrary: off d)
  case Nil
  then show ?case by simp
next
  case (Cons w ws)
  show ?case
  proof (cases "encoded_ids w")
    case None
    then show ?thesis
      using Cons.IH [of "off + ns w" d]
      by (simp add: upt_shift add.assoc rows_of_def Let_def case_prod_beta del: upt_Suc)
  next
    case (Some ids)
    then show ?thesis
      using Cons.IH [of "off + ns w" "fst (merge_encoded_ids off d ids)"]
        merge_encoded_ids_rows [of off d ids]
      by (simp add: upt_shift add.assoc rows_of_def Let_def case_prod_beta del: upt_Suc)
  qed
qed

lemma merge_workers_workers:
  "map rows_of (snd (merge_chunk_id_encoders_workers ns off d ws)) =
     map (\<lambda>i. map (\<lambda>r. (fst r, store_encoding_dtype
                                   (snd r + (off + sum_list (map ns (take i ws))))))
                 (rows_of (ws ! i)))
       [0..<length ws]"
proof (induction ws arbitrary: off d)
  case Nil
  then show ?case by simp
next
  case (Cons w ws)
  show ?case
  proof (cases "encoded_ids w")
    case None
    then show ?thesis
      using Cons.IH [of "off + ns w" d]
      by (simp add: upt_shift add.assoc rows_of_def Let_def case_prod_beta del: upt_Suc)
  next
    case (Some ids)
    then show ?thesis
      using Cons.IH [of "off + ns w" "fst (merge_encoded_ids off d ids)"]
        merge_encoded_ids_worker [of off d ids]
      by (simp add: upt_shift add.assoc rows_of_def Let_def case_prod_beta del: upt_Suc)
  qed
qed

lemma shifted_rows_in_range:
  assumes "\<forall>i<length ws. \<forall>r\<in>set (rows_of (ws ! i)). snd r + g i < 2 ^ 32"
  shows "map (\<lambda>i. map (\<lambda>r. (fst r, store_encoding_dtype (snd r + g i))) (rows_of (ws ! i)))
           [0..<length ws] =
         map (\<lambda>i. map (\<lambda>r. (fst r, snd r + g i)) (rows_of (ws ! i))) [0..<length ws]"
  using assms by (auto simp: store_encoding_dtype_def)

text \<open>
  C4. Merging the workers' encoders of one tensor into the destination encoder: the
  running offset starts at the destination's \<open>num_samples\<close>; the rows of worker \<open>i\<close>
  (counted from 0) are appended after the destination's rows and the rows of the workers
  before it, the chunk id unchanged, each with its cumulative-count field raised by the
  destination's \<open>num_samples\<close> plus the \<open>num_samples\<close> of the workers before \<open>i\<close> and
  stored in the rows' 32-bit type, that is, modulo \<open>2 ^ 32\<close>; the same is done in place in
  the worker's own rows. When every raised count is below \<open>2 ^ 32\<close>, the field is the sum
  itself: the worker's local count plus \<open>n_1 + ... + n_(i-1)\<close>, plus the destination's
  count when it has samples. \<open>merge_chunk_id_encoders\<close> does this for the tensor it is
  given.
\<close>

theorem merge_chunk_id_encoders_offsets:
  "rows_of (fst (merge_chunk_id_encoders_tensor num_samples dst workers)) =
     rows_of dst @
     concat (map (\<lambda>i. map (\<lambda>r. (fst r, (snd r + (num_samples dst
                                       + sum_list (map num_samples (take i workers)))) mod 2 ^ 32))
                        (rows_of (workers ! i)))
               [0..<length workers])
   \<and> map rows_of (snd (merge_chunk_id_encoders_tensor num_samples dst workers)) =
     map (\<lambda>i. map (\<lambda>r. (fst r, (snd r + (num_samples dst
                                       + sum_list (map num_samples (take i workers)))) mod 2 ^ 32))
                 (rows_of (workers ! i)))
       [0..<length workers]
   \<and> fst (merge_chunk_id_encoders num_samples engines [tensor] ds_out) tensor =
     fst (merge_chunk_id_encoders_tensor num_samples (ds_out tensor)
            (map (\<lambda>chunk_engine. chunk_engine tensor) engines))
   \<and> ((\<forall>i<length workers. \<forall>r\<in>set (rows_of (workers ! i)).
           snd r + (num_samples dst + sum_list (map num_samples (take i workers))) < 2 ^ 32)
        \<longrightarrow>
        rows_of (fst (merge_chunk_id_encoders_tensor num_samples dst workers)) =
          rows_of dst @
          concat (map (\<lambda>i. map (\<lambda>r. (fst r, snd r + (num_samples dst
                                            + sum_list (map num_samples (take i workers)))))
                             (rows_of (workers ! i)))
                    [0..<length workers])
        \<and> map rows_of (snd (merge_chunk_id_encoders_tensor num_samples dst workers)) =
          map (\<lambda>i. map (\<lambda>r. (fst r, snd r + (num_samples dst
                                            + sum_list (map num_samples (take i workers)))))
                      (rows_of (workers ! i)))
            [0..<length workers])"
proof -
  have wrapped: "rows_of (fst (merge_chunk_id_encoders_tensor num_samples dst workers)) =
     rows_of dst @
     concat (map (\<lambda>i. map (\<lambda>r. (fst r, store_encoding_dtype (snd r + (num_samples dst
                                       + sum_list (map num_samples (take i workers))))))
                        (rows_of (workers ! i)))
               [0..<length workers])"
    by (simp add: merge_chunk_id_encoders_tensor_def merge_workers_rows)
  have in_place: "map rows_of (snd (merge_chunk_id_encoders_tensor num_samples dst workers)) =
     map (\<lambda>i. map (\<lambda>r. (fst r, store_encoding_dtype (snd r + (num_samples dst
                                       + sum_list (map num_samples (take i workers))))))
                 (rows_of (workers ! i)))
       [0..<length workers]"
    by (simp add: merge_chunk_id_encoders_tensor_def merge_workers_workers)
  have outer: "fst (merge_chunk_id_encoders num_samples engines [tensor] ds_out) tensor =
     fst (merge_chunk_id_encoders_tensor num_samples (ds_out tensor)
            (map (\<lambda>chunk_engine. chunk_engine tensor) engines))"
    by (simp add: case_prod_beta)
  have exact: "rows_of (fst (merge_chunk_id_encoders_tensor num_samples dst workers)) =
          rows_of dst @
          concat (map (\<lambda>i. map (\<lambda>r. (fst r, snd r + (num_samples dst
                                            + sum_list (map num_samples (take i workers)))))
                             (rows_of (workers ! i)))
                    [0..<length workers])
        \<and> map rows_of (snd (merge_chunk_id_encoders_tensor num_samples dst workers)) =
          map (\<lambda>i. map (\<lambda>r. (fst r, snd r + (num_samples dst
                                            + sum_list (map num_samples (take i workers)))))
                      (rows_of (workers ! i)))
            [0..<length workers]"
    if bound: "\<forall>i<length workers. \<forall>r\<in>set (rows_of (workers ! i)).
           snd r + (num_samples dst + sum_list (map num_samples (take i workers))) < 2 ^ 32"
    unfolding wrapped in_place
      shifted_rows_in_range [of workers
        "\<lambda>i. num_samples dst + sum_list (map num_samples (take i workers))", OF bound]
    by simp
  from wrapped in_place outer exact show ?thesis
    by (simp add: store_encoding_dtype_def)
qed

text \<open>An example with \<open>num_samples\<close> read from the last row: a destination of 2 samples
  and workers of 3, 0 and 4 samples.\<close>

theorem merge_chunk_id_encoders_offsets_witness:
  "(2::nat) + 2 < 2 ^ 32 \<and> (3::nat) + 2 < 2 ^ 32 \<and> (4::nat) + 5 < 2 ^ 32
   \<and> rows_of (fst (merge_chunk_id_encoders_tensor
       (\<lambda>e. case rows_of e of [] \<Rightarrow> 0 | rs \<Rightarrow> snd (last rs))
       \<lparr>encoded_ids = Some [(10, 2)]\<rparr>
       [\<lparr>encoded_ids = Some [(20, 2), (21, 3)]\<rparr>, \<lparr>encoded_ids = None\<rparr>,
        \<lparr>encoded_ids = Some [(30, 4)]\<rparr>])) =
     [(10, 2), (20, 4), (21, 5), (30, 9)]"
proof -
  let ?ns = "\<lambda>e. case rows_of e of [] \<Rightarrow> 0 | rs \<Rightarrow> snd (last rs)"
  let ?dst = "\<lparr>encoded_ids = Some [(10, 2 :: nat)]\<rparr>"
  let ?ws = "[\<lparr>encoded_ids = Some [(20, 2), (21, 3)]\<rparr>, \<lparr>encoded_ids = None\<rparr>,
              \<lparr>encoded_ids = Some [(30, 4 :: nat)]\<rparr>]"
  have bound: "\<forall>i<length ?ws. \<forall>r\<in>set (rows_of (?ws ! i)).
           snd r + (?ns ?dst + sum_list (map ?ns (take i ?ws))) < 2 ^ 32"
    by (simp add: All_less_Suc rows_of_def)
  note inst = merge_chunk_id_encoders_offsets [of ?ns ?dst ?ws]
  note exact = mp [OF conjunct2 [OF conjunct2 [OF conjunct2 [OF inst]]] bound]
  have "rows_of (fst (merge_chunk_id_encoders_tensor ?ns ?dst ?ws)) =
          [(10, 2), (20, 4), (21, 5), (30, 9)]"
    unfolding conjunct1 [OF exact] by (simp add: rows_of_def)
  then show ?thesis
    by simp
qed

text \<open>
  C4 without the bound does not hold: with a destination of \<open>2 ^ 32 - 1\<close> samples, the
  worker's row with local count 2 is stored with count 1 and not with \<open>2 ^ 32 + 1\<close>.
\<close>

theorem merge_chunk_id_encoders_wraps:
  "rows_of (fst (merge_chunk_id_encoders_tensor
       (\<lambda>e. case rows_of e of [] \<Rightarrow> 0 | rs \<Rightarrow> snd (last rs))
       \<lparr>encoded_ids = Some [(10, 4294967295)]\<rparr>
       [\<lparr>encoded_ids = Some [(20, 2)]\<rparr>])) =
     [(10, 4294967295), (20, 1)]
   \<and> rows_of (fst (merge_chunk_id_encoders_tensor
       (\<lambda>e. case rows_of e of [] \<Rightarrow> 0 | rs \<Rightarrow> snd (last rs))
       \<lparr>encoded_ids = Some [(10, 4294967295)]\<rparr>
       [\<lparr>encoded_ids = Some [(20, 2)]\<rparr>])) \<noteq>
     [(10, 4294967295), (20, 4294967295 + 2)]"
  by (simp add: merge_chunk_id_encoders_tensor_def rows_of_def Let_def case_prod_beta
      store_encoding_dtype_def)

section \<open>Properties of the sample-wise compressed chunk\<close>

subsection \<open>One step of the loop of \<open>extend_if_has_space\<close>\<close>

lemma extend_loop_done:
  "\<not> i < length xs \<Longrightarrow> extend_loop env i self xs = (Inr (length xs), self, xs)"
  by (subst extend_loop.simps) simp

lemma extend_loop_raise:
  "i < length xs \<Longrightarrow> serialize_sample env self (xs ! i) = Inl e
     \<Longrightarrow> extend_loop env i self xs = (Inl e, self, xs)"
  by (subst extend_loop.simps) simp

lemma extend_loop_reject:
  "i < length xs \<Longrightarrow> serialize_sample env self (xs ! i) = Inr (b, sh)
     \<Longrightarrow> max_chunk_size self < num_data_bytes self + length b
     \<Longrightarrow> extend_loop env i self xs =
           (Inr i, self, xs[i := SV_Sample (Sample_buffer b (compression self) sh)])"
  by (subst extend_loop.simps) simp

lemma extend_loop_accept:
  "i < length xs \<Longrightarrow> serialize_sample env self (xs ! i) = Inr (b, sh)
     \<Longrightarrow> \<not> max_chunk_size self < num_data_bytes self + length b
     \<Longrightarrow> extend_loop env i self xs =
           extend_loop env (Suc i)
             (register_sample_to_headers
                (self\<lparr>data_bytes := data_bytes self @ b, shapes := shapes self @ [sh]\<rparr>) (length b) sh)
             (xs[i := SV_Sample (Sample_buffer b (compression self) sh)])"
  by (subst extend_loop.simps) simp

lemma serialize_sample_cong:
  assumes "chunk_dtype a = chunk_dtype b" and "htype a = htype b"
    and "compression a = compression b" and "is_text_like a = is_text_like b"
    and "is_byte_compression a = is_byte_compression b"
  shows "serialize_sample env a x = serialize_sample env b x"
  unfolding serialize_sample_def assms ..

lemma accepted_fields [simp]:
  "chunk_dtype (register_sample_to_headers (self\<lparr>data_bytes := d, shapes := s\<rparr>) k sh) =
     chunk_dtype self"
  "htype (register_sample_to_headers (self\<lparr>data_bytes := d, shapes := s\<rparr>) k sh) = htype self"
  "compression (register_sample_to_headers (self\<lparr>data_bytes := d, shapes := s\<rparr>) k sh) =
     compression self"
  "is_text_like (register_sample_to_headers (self\<lparr>data_bytes := d, shapes := s\<rparr>) k sh) =
     is_text_like self"
  "is_byte_compression (register_sample_to_headers (self\<lparr>data_bytes := d, shapes := s\<rparr>) k sh) =
     is_byte_compression self"
  "max_chunk_size (register_sample_to_headers (self\<lparr>data_bytes := d, shapes := s\<rparr>) k sh) =
     max_chunk_size self"
  "num_data_bytes (register_sample_to_headers (self\<lparr>data_bytes := d, shapes := s\<rparr>) k sh) =
     length d"
  "data_bytes (register_sample_to_headers (self\<lparr>data_bytes := d, shapes := s\<rparr>) k sh) = d"
  "length (byte_positions_encoder
     (register_sample_to_headers (self\<lparr>data_bytes := d, shapes := s\<rparr>) k sh)) =
     Suc (length (byte_positions_encoder self))"
  "length (shapes_encoder
     (register_sample_to_headers (self\<lparr>data_bytes := d, shapes := s\<rparr>) k sh)) =
     Suc (length (shapes_encoder self))"
  by (simp_all add: register_sample_to_headers_def num_data_bytes_def)

lemma serialize_sample_accepted [simp]:
  "serialize_sample env
     (register_sample_to_headers (self\<lparr>data_bytes := d, shapes := s\<rparr>) k sh) x =
   serialize_sample env self x"
  by (rule serialize_sample_cong) simp_all

lemma serialized_wrapper_accepted [simp]:
  "serialized_wrapper env
     (register_sample_to_headers (self\<lparr>data_bytes := d, shapes := s\<rparr>) k sh) x =
   serialized_wrapper env self x"
  unfolding serialized_wrapper_def serialize_sample_accepted accepted_fields ..

lemma serialized_bytes_accepted [simp]:
  "serialized_bytes env
     (register_sample_to_headers (self\<lparr>data_bytes := d, shapes := s\<rparr>) k sh) x =
   serialized_bytes env self x"
  unfolding serialized_bytes_def serialize_sample_accepted ..

lemma serialized_bytes_accepted_fun [simp]:
  "serialized_bytes env
     (register_sample_to_headers (self\<lparr>data_bytes := d, shapes := s\<rparr>) k sh) =
   serialized_bytes env self"
  by (rule ext) simp

lemma serialized_wrapper_accepted_fun [simp]:
  "serialized_wrapper env
     (register_sample_to_headers (self\<lparr>data_bytes := d, shapes := s\<rparr>) k sh) =
   serialized_wrapper env self"
  by (rule ext) simp

subsection \<open>The capacity bound and the accepted count\<close>

lemma extend_loop_capacity:
  "extend_loop env i self xs = (r, self', xs') \<Longrightarrow> num_data_bytes self \<le> max_chunk_size self
     \<Longrightarrow> i \<le> length xs
     \<Longrightarrow> num_data_bytes self' \<le> max_chunk_size self'
         \<and> max_chunk_size self' = max_chunk_size self
         \<and> (\<forall>n. r = Inr n \<longrightarrow>
               i \<le> n \<and> n \<le> length xs
               \<and> length (byte_positions_encoder self') = length (byte_positions_encoder self) + (n - i)
               \<and> length (shapes_encoder self') = length (shapes_encoder self) + (n - i)
               \<and> data_bytes self' =
                   data_bytes self @ concat (map (serialized_bytes env self) (take (n - i) (drop i xs))))"
proof (induction "length xs - i" arbitrary: i self xs)
  case 0
  have "\<not> i < length xs"
    using "0.hyps" by simp
  then have stop: "extend_loop env i self xs = (Inr (length xs), self, xs)"
    by (rule extend_loop_done)
  have "(r, self', xs') = extend_loop env i self xs"
    using "0.prems"(1) by (rule sym)
  also note stop
  finally have eqs: "r = Inr (length xs)" "self' = self" "xs' = xs"
    by simp_all
  show ?case
    unfolding eqs using "0.prems"(2,3) "0.hyps" by simp
next
  case (Suc k)
  have lt: "i < length xs"
    using Suc.hyps(2) by simp
  show ?case
  proof (cases "serialize_sample env self (xs ! i)")
    case (Inl e)
    have "(r, self', xs') = extend_loop env i self xs"
      using Suc.prems(1) by (rule sym)
    also note extend_loop_raise [OF lt Inl]
    finally have eqs: "r = Inl e" "self' = self"
      by simp_all
    show ?thesis
      unfolding eqs using Suc.prems(2) by simp
  next
    case (Inr p)
    obtain b sh where p: "p = (b, sh)"
      by (cases p)
    note ser = Inr [unfolded p]
    show ?thesis
    proof (cases "max_chunk_size self < num_data_bytes self + length b")
      case True
      have "(r, self', xs') = extend_loop env i self xs"
        using Suc.prems(1) by (rule sym)
      also note extend_loop_reject [OF lt ser True]
      finally have eqs: "r = Inr i" "self' = self"
        by simp_all
      show ?thesis
        unfolding eqs using Suc.prems(2) lt by simp
    next
      case False
      let ?self1 = "register_sample_to_headers
                (self\<lparr>data_bytes := data_bytes self @ b, shapes := shapes self @ [sh]\<rparr>) (length b) sh"
      let ?xs1 = "xs[i := SV_Sample (Sample_buffer b (compression self) sh)]"
      have run: "extend_loop env (Suc i) ?self1 ?xs1 = (r, self', xs')"
        by (rule trans [OF extend_loop_accept [OF lt ser False, symmetric] Suc.prems(1)])
      have fits: "num_data_bytes ?self1 \<le> max_chunk_size ?self1"
        using False by (simp add: num_data_bytes_def)
      have k: "k = length ?xs1 - Suc i"
        using Suc.hyps(2) by simp
      have le: "Suc i \<le> length ?xs1"
        using lt by simp
      note IH = Suc.hyps(1) [OF k run fits le]
      have bytes_i: "serialized_bytes env self (xs ! i) = b"
        using ser by (simp add: serialized_bytes_def)
      have bound: "num_data_bytes self' \<le> max_chunk_size self'"
        using IH by (rule conjunct1)
      have cap: "max_chunk_size self' = max_chunk_size self"
        using conjunct1 [OF conjunct2 [OF IH]] by simp
      have count: "i \<le> n \<and> n \<le> length xs
               \<and> length (byte_positions_encoder self') = length (byte_positions_encoder self) + (n - i)
               \<and> length (shapes_encoder self') = length (shapes_encoder self) + (n - i)
               \<and> data_bytes self' =
                   data_bytes self @ concat (map (serialized_bytes env self) (take (n - i) (drop i xs)))"
        if n: "r = Inr n" for n
      proof -
        from conjunct2 [OF conjunct2 [OF IH]] have "r = Inr n \<longrightarrow>
             Suc i \<le> n \<and> n \<le> length ?xs1
             \<and> length (byte_positions_encoder self') = length (byte_positions_encoder ?self1) + (n - Suc i)
             \<and> length (shapes_encoder self') = length (shapes_encoder ?self1) + (n - Suc i)
             \<and> data_bytes self' =
                 data_bytes ?self1 @
                 concat (map (serialized_bytes env ?self1) (take (n - Suc i) (drop (Suc i) ?xs1)))"
          by (rule spec)
        from mp [OF this n]
        have f: "Suc i \<le> n" "n \<le> length ?xs1"
          "length (byte_positions_encoder self') = length (byte_positions_encoder ?self1) + (n - Suc i)"
          "length (shapes_encoder self') = length (shapes_encoder ?self1) + (n - Suc i)"
          "data_bytes self' =
             data_bytes ?self1 @
             concat (map (serialized_bytes env ?self1) (take (n - Suc i) (drop (Suc i) ?xs1)))"
          by simp_all
        have d: "n - i = Suc (n - Suc i)"
          using f(1) by simp
        have dr: "drop i xs = xs ! i # drop (Suc i) xs"
          using lt by (simp add: Cons_nth_drop_Suc)
        have t: "take (n - i) (drop i xs) = xs ! i # take (n - Suc i) (drop (Suc i) xs)"
          unfolding d dr by simp
        have bytes: "data_bytes self' =
                   data_bytes self @ concat (map (serialized_bytes env self) (take (n - i) (drop i xs)))"
          unfolding t using f(5) by (simp add: bytes_i)
        have l1: "length (byte_positions_encoder self') = length (byte_positions_encoder self) + (n - i)"
          using f(3) d by simp
        have l2: "length (shapes_encoder self') = length (shapes_encoder self) + (n - i)"
          using f(4) d by simp
        from f(1,2) l1 l2 bytes show ?thesis
          by simp
      qed
      have counts: "\<forall>n. r = Inr n \<longrightarrow>
               i \<le> n \<and> n \<le> length xs
               \<and> length (byte_positions_encoder self') = length (byte_positions_encoder self) + (n - i)
               \<and> length (shapes_encoder self') = length (shapes_encoder self) + (n - i)
               \<and> data_bytes self' =
                   data_bytes self @ concat (map (serialized_bytes env self) (take (n - i) (drop i xs)))"
        by (intro allI impI) (rule count)
      from bound cap counts show ?thesis
        by (intro conjI)
    qed
  qed
qed

text \<open>
  C2. A call of \<open>extend_if_has_space\<close> on a chunk whose used bytes are within the
  capacity leaves them within the capacity, whatever the input list and whether the call
  returns or raises; the capacity itself is unchanged. When the call returns \<open>n\<close>, \<open>n\<close> is
  at most the length of the list, the byte-range header and the shape header have each
  grown by exactly \<open>n\<close> entries, and the buffer has grown by the serialized bytes of the
  first \<open>n\<close> samples.
\<close>

theorem extend_if_has_space_capacity:
  assumes "extend_if_has_space env self incoming_samples = (r, self', incoming_samples')"
    and "num_data_bytes self \<le> max_chunk_size self"
  shows "num_data_bytes self' \<le> max_chunk_size self'
       \<and> max_chunk_size self' = max_chunk_size self
       \<and> (\<forall>n. r = Inr n \<longrightarrow>
             n \<le> length incoming_samples
             \<and> length (byte_positions_encoder self') = length (byte_positions_encoder self) + n
             \<and> length (shapes_encoder self') = length (shapes_encoder self) + n
             \<and> data_bytes self' =
                 data_bytes self @ concat (map (serialized_bytes env self) (take n incoming_samples)))"
  using extend_loop_capacity [of env 0 self incoming_samples r self' incoming_samples'] assms
  by (simp add: extend_if_has_space_def)


subsection \<open>A run of the chunk on concrete samples\<close>

lemma ser789:
  "serialize_sample stored_codec (empty_chunk c) (SV_Array (uint8_array [7, 8, 9])) =
     Inr ([0, 7, 8, 9], Some [3])"
  by (simp add: serialize_sample_def stored_codec_def empty_chunk_def stored_cast_def uint8_array_def)

lemma ser456:
  "serialize_sample stored_codec (empty_chunk c) (SV_Array (uint8_array [4, 5, 6])) =
     Inr ([0, 4, 5, 6], Some [3])"
  by (simp add: serialize_sample_def stored_codec_def empty_chunk_def stored_cast_def uint8_array_def)

lemma run_two_samples:
  "extend_if_has_space stored_codec (empty_chunk 5)
     [SV_Array (uint8_array [7, 8, 9]), SV_Array (uint8_array [4, 5, 6])] =
   (Inr (Suc 0),
    (empty_chunk 5)\<lparr>data_bytes := [0, 7, 8, 9], shapes := [Some [3]],
                     byte_positions_encoder := [(0, 4)], shapes_encoder := [Some [3]]\<rparr>,
    [SV_Sample (Sample_buffer [0, 7, 8, 9] (Some ''lz4'') (Some [3])),
     SV_Sample (Sample_buffer [0, 4, 5, 6] (Some ''lz4'') (Some [3]))])"
proof -
  let ?xs = "[SV_Array (uint8_array [7, 8, 9]), SV_Array (uint8_array [4, 5, 6])]"
  let ?c1 = "register_sample_to_headers
               ((empty_chunk 5)\<lparr>data_bytes := data_bytes (empty_chunk 5) @ [0, 7, 8, 9],
                                shapes := shapes (empty_chunk 5) @ [Some [3]]\<rparr>)
               (length [0, 7, 8, 9 :: nat]) (Some [3])"
  let ?xs1 = "?xs[0 := SV_Sample (Sample_buffer [0, 7, 8, 9] (compression (empty_chunk 5)) (Some [3]))]"
  have s0: "serialize_sample stored_codec (empty_chunk 5) (?xs ! 0) = Inr ([0, 7, 8, 9], Some [3])"
    by (simp add: ser789)
  have fit0: "\<not> max_chunk_size (empty_chunk 5) < num_data_bytes (empty_chunk 5) + length [0, 7, 8, 9 :: nat]"
    by (simp add: empty_chunk_def num_data_bytes_def)
  have step0: "extend_loop stored_codec 0 (empty_chunk 5) ?xs = extend_loop stored_codec (Suc 0) ?c1 ?xs1"
    by (rule extend_loop_accept [OF _ s0 fit0]) simp
  have c1: "?c1 = (empty_chunk 5)\<lparr>data_bytes := [0, 7, 8, 9], shapes := [Some [3]],
                     byte_positions_encoder := [(0, 4)], shapes_encoder := [Some [3]]\<rparr>"
    by (simp add: register_sample_to_headers_def empty_chunk_def last_end_byte_def)
  have s1: "serialize_sample stored_codec ?c1 (?xs1 ! Suc 0) = Inr ([0, 4, 5, 6], Some [3])"
    by (simp add: ser456)
  have full: "max_chunk_size ?c1 < num_data_bytes ?c1 + length [0, 4, 5, 6 :: nat]"
    unfolding c1 by (simp add: empty_chunk_def num_data_bytes_def)
  have step1: "extend_loop stored_codec (Suc 0) ?c1 ?xs1 =
      (Inr (Suc 0), ?c1, ?xs1[Suc 0 := SV_Sample (Sample_buffer [0, 4, 5, 6] (compression ?c1) (Some [3]))])"
    by (rule extend_loop_reject [OF _ s1 full]) simp
  have "extend_if_has_space stored_codec (empty_chunk 5) ?xs =
          extend_loop stored_codec (Suc 0) ?c1 ?xs1"
    unfolding extend_if_has_space_def by (rule step0)
  also note step1
  also have "(Inr (Suc 0), ?c1,
              ?xs1[Suc 0 := SV_Sample (Sample_buffer [0, 4, 5, 6] (compression ?c1) (Some [3]))]) =
             (Inr (Suc 0),
              (empty_chunk 5)\<lparr>data_bytes := [0, 7, 8, 9], shapes := [Some [3]],
                     byte_positions_encoder := [(0, 4)], shapes_encoder := [Some [3]]\<rparr>,
              [SV_Sample (Sample_buffer [0, 7, 8, 9] (Some ''lz4'') (Some [3])),
               SV_Sample (Sample_buffer [0, 4, 5, 6] (Some ''lz4'') (Some [3]))])"
    unfolding c1 by (simp add: empty_chunk_def)
  finally show ?thesis .
qed

theorem extend_if_has_space_capacity_witness:
  "num_data_bytes (empty_chunk 5) \<le> max_chunk_size (empty_chunk 5)
   \<and> fst (extend_if_has_space stored_codec (empty_chunk 5)
        [SV_Array (uint8_array [7, 8, 9]), SV_Array (uint8_array [4, 5, 6])]) = Inr 1
   \<and> num_data_bytes (fst (snd (extend_if_has_space stored_codec (empty_chunk 5)
        [SV_Array (uint8_array [7, 8, 9]), SV_Array (uint8_array [4, 5, 6])]))) = 4
   \<and> length (byte_positions_encoder (fst (snd (extend_if_has_space stored_codec (empty_chunk 5)
        [SV_Array (uint8_array [7, 8, 9]), SV_Array (uint8_array [4, 5, 6])])))) = 1
   \<and> length (shapes_encoder (fst (snd (extend_if_has_space stored_codec (empty_chunk 5)
        [SV_Array (uint8_array [7, 8, 9]), SV_Array (uint8_array [4, 5, 6])])))) = 1"
proof -
  have fits: "num_data_bytes (empty_chunk 5) \<le> max_chunk_size (empty_chunk 5)"
    by (simp add: empty_chunk_def num_data_bytes_def)
  note inst = extend_if_has_space_capacity [OF run_two_samples fits]
  have n: "length (byte_positions_encoder ((empty_chunk 5)\<lparr>data_bytes := [0, 7, 8, 9], shapes := [Some [3]],
                     byte_positions_encoder := [(0, 4)], shapes_encoder := [Some [3]]\<rparr>)) =
           length (byte_positions_encoder (empty_chunk 5)) + 1"
    using inst by simp
  have m: "length (shapes_encoder ((empty_chunk 5)\<lparr>data_bytes := [0, 7, 8, 9], shapes := [Some [3]],
                     byte_positions_encoder := [(0, 4)], shapes_encoder := [Some [3]]\<rparr>)) =
           length (shapes_encoder (empty_chunk 5)) + 1"
    using inst by simp
  show ?thesis
    using fits n m by (simp add: run_two_samples num_data_bytes_def)
qed

subsection \<open>The rewriting of the caller's list\<close>

lemma visited_update [simp]: "visited n (xs[i := w]) = visited n xs"
  by (simp add: visited_def)

lemma serialized_wrapper_Inr:
  "serialize_sample env self x = Inr (b, sh)
     \<Longrightarrow> serialized_wrapper env self x = SV_Sample (Sample_buffer b (compression self) sh)"
  by (simp add: serialized_wrapper_def)

lemma extend_loop_rewrites:
  "extend_loop env i self xs = (Inr n, self', xs') \<Longrightarrow> i \<le> length xs
     \<Longrightarrow> i \<le> n \<and> n \<le> length xs \<and> length xs' = length xs
         \<and> (\<forall>j<length xs. xs' ! j =
               (if i \<le> j \<and> j < visited n xs then serialized_wrapper env self (xs ! j) else xs ! j))
         \<and> (\<forall>j. i \<le> j \<and> j < visited n xs
               \<longrightarrow> (\<exists>b sh. serialize_sample env self (xs ! j) = Inr (b, sh)))"
proof (induction "length xs - i" arbitrary: i self xs)
  case 0
  have nlt: "\<not> i < length xs"
    using "0.hyps" by simp
  then have stop: "extend_loop env i self xs = (Inr (length xs), self, xs)"
    by (rule extend_loop_done)
  have "(Inr n, self', xs') = extend_loop env i self xs"
    using "0.prems"(1) by (rule sym)
  also note stop
  finally have eqs: "n = length xs" "xs' = xs"
    by simp_all
  show ?case
    unfolding eqs using "0.prems"(2) nlt by (auto simp: visited_def)
next
  case (Suc k)
  have lt: "i < length xs"
    using Suc.hyps(2) by simp
  show ?case
  proof (cases "serialize_sample env self (xs ! i)")
    case (Inl e)
    have "(Inr n, self', xs') = extend_loop env i self xs"
      using Suc.prems(1) by (rule sym)
    also note extend_loop_raise [OF lt Inl]
    finally show ?thesis
      by simp
  next
    case (Inr p)
    obtain b sh where p: "p = (b, sh)"
      by (cases p)
    note ser = Inr [unfolded p]
    note wrap = serialized_wrapper_Inr [OF ser]
    show ?thesis
    proof (cases "max_chunk_size self < num_data_bytes self + length b")
      case True
      have "(Inr n, self', xs') = extend_loop env i self xs"
        using Suc.prems(1) by (rule sym)
      also note extend_loop_reject [OF lt ser True]
      finally have eqs: "n = i" "xs' = xs[i := SV_Sample (Sample_buffer b (compression self) sh)]"
        by simp_all
      have v: "visited i xs = Suc i"
        using lt by (simp add: visited_def)
      have one: "i \<le> j \<and> j < Suc i \<longleftrightarrow> j = i" for j
        by auto
      show ?thesis
        unfolding eqs v one using lt ser wrap by (simp add: nth_list_update)
    next
      case False
      let ?self1 = "register_sample_to_headers
                (self\<lparr>data_bytes := data_bytes self @ b, shapes := shapes self @ [sh]\<rparr>) (length b) sh"
      let ?xs1 = "xs[i := SV_Sample (Sample_buffer b (compression self) sh)]"
      have run: "extend_loop env (Suc i) ?self1 ?xs1 = (Inr n, self', xs')"
        by (rule trans [OF extend_loop_accept [OF lt ser False, symmetric] Suc.prems(1)])
      have k: "k = length ?xs1 - Suc i"
        using Suc.hyps(2) by simp
      have le: "Suc i \<le> length ?xs1"
        using lt by simp
      note IH = Suc.hyps(1) [OF k run le]
      from IH have n1: "Suc i \<le> n" and n2: "n \<le> length xs" and len: "length xs' = length xs"
        by simp_all
      have vis: "i < visited n xs"
        using n1 by (simp add: visited_def)
      from IH have nth1: "\<forall>j<length xs. xs' ! j =
               (if Suc i \<le> j \<and> j < visited n xs then serialized_wrapper env self (?xs1 ! j)
                else ?xs1 ! j)"
        by simp
      from IH have ex1: "\<forall>j. Suc i \<le> j \<and> j < visited n xs
               \<longrightarrow> (\<exists>b sh. serialize_sample env self (?xs1 ! j) = Inr (b, sh))"
        by simp
      have nth: "xs' ! j =
               (if i \<le> j \<and> j < visited n xs then serialized_wrapper env self (xs ! j) else xs ! j)"
        if j: "j < length xs" for j
      proof (cases "j = i")
        case True
        then show ?thesis
          using nth1 j vis wrap by simp
      next
        case False
        then have "?xs1 ! j = xs ! j"
          by simp
        with False nth1 j show ?thesis
          by (cases "i \<le> j") auto
      qed
      have ex: "\<exists>b sh. serialize_sample env self (xs ! j) = Inr (b, sh)"
        if j: "i \<le> j \<and> j < visited n xs" for j
      proof (cases "j = i")
        case True
        then show ?thesis
          using ser by simp
      next
        case False
        then have "?xs1 ! j = xs ! j"
          by simp
        with False ex1 j show ?thesis
          by (cases "Suc i \<le> j") auto
      qed
      from n1 n2 len nth ex show ?thesis
        by simp
    qed
  qed
qed

lemma serialize_sample_wrapper:
  "\<not> is_text_like other \<Longrightarrow> \<not> is_byte_compression other
     \<Longrightarrow> serialize_sample env2 other (SV_Sample (Sample_buffer b (compression other) sh)) =
           Inr (b, if sh = Some [] then Some [1] else sh)"
  by (simp add: serialize_sample_def sample_shape_def compressed_bytes_def)

lemma normalised_shape:
  "(case r of Inl e \<Rightarrow> Inl e | Inr (b, sh) \<Rightarrow> Inr (b, if sh = Some [] then Some [1::nat] else sh)) =
     Inr (b', sh') \<Longrightarrow> sh' \<noteq> Some []"
  by (auto split: sum.splits prod.splits if_splits)

lemma serialize_sample_shape: "serialize_sample env self x = Inr (b, sh) \<Longrightarrow> sh \<noteq> Some []"
  unfolding serialize_sample_def Let_def by (rule normalised_shape)


text \<open>
  When \<open>extend_if_has_space\<close> returns \<open>n\<close>, the caller's list has its length, every
  sample it visited (the accepted ones and, when there is one, the rejected sample at
  index \<open>n\<close>) is replaced by the wrapper of the bytes \<open>serialize_sample\<close> gave for it,
  the chunk's compression and the recorded shape, and the samples after it are untouched.
\<close>

lemma extend_if_has_space_rewrites_visited:
  assumes "extend_if_has_space env self incoming_samples = (Inr n, self', incoming_samples')"
  shows "length incoming_samples' = length incoming_samples
       \<and> (\<forall>j<length incoming_samples.
             incoming_samples' ! j =
               (if j < visited n incoming_samples
                then serialized_wrapper env self (incoming_samples ! j)
                else incoming_samples ! j))
       \<and> (\<forall>j<visited n incoming_samples.
             \<exists>b sh. serialize_sample env self (incoming_samples ! j) = Inr (b, sh)
               \<and> incoming_samples' ! j = SV_Sample (Sample_buffer b (compression self) sh))"
proof -
  note loop = extend_loop_rewrites [OF assms [unfolded extend_if_has_space_def] le0]
  from loop have len: "length incoming_samples' = length incoming_samples"
    by simp
  from loop have n: "n \<le> length incoming_samples"
    by simp
  from loop have nth: "\<forall>j<length incoming_samples.
             incoming_samples' ! j =
               (if j < visited n incoming_samples
                then serialized_wrapper env self (incoming_samples ! j)
                else incoming_samples ! j)"
    by simp
  from loop have ex: "\<forall>j. j < visited n incoming_samples
               \<longrightarrow> (\<exists>b sh. serialize_sample env self (incoming_samples ! j) = Inr (b, sh))"
    by simp
  have vis: "visited n incoming_samples \<le> length incoming_samples"
    using n by (simp add: visited_def)
  have wrapped: "\<exists>b sh. serialize_sample env self (incoming_samples ! j) = Inr (b, sh)
               \<and> incoming_samples' ! j = SV_Sample (Sample_buffer b (compression self) sh)"
    if j: "j < visited n incoming_samples" for j
  proof -
    from ex j obtain b sh where ser: "serialize_sample env self (incoming_samples ! j) = Inr (b, sh)"
      by blast
    have "j < length incoming_samples"
      using j vis by simp
    with nth j have "incoming_samples' ! j = SV_Sample (Sample_buffer b (compression self) sh)"
      by (simp add: serialized_wrapper_Inr [OF ser])
    with ser show ?thesis
      by blast
  qed
  from len nth wrapped show ?thesis
    by blast
qed

subsection \<open>Serializing a wrapper again\<close>

lemma retried_under_stored_codec:
  "serialize_sample stored_codec (empty_chunk 100)
     (SV_Sample (Sample_buffer [0, 4, 5, 6] (Some ''lz4'') (Some [3]))) = Inl ValueError"
  by (simp add: serialize_sample_def empty_chunk_def sample_shape_def sample_array_def
      stored_codec_def stored_decompress_array_def np_frombuffer_def itemsize_def)

lemma retried_under_marker_codec:
  "serialize_sample marker_codec (empty_chunk 100)
     (SV_Sample (Sample_buffer [0, 4, 5, 6] (Some ''lz4'') (Some [3]))) = Inr ([255], Some [3])"
  by (simp add: serialize_sample_def empty_chunk_def sample_shape_def sample_array_def
      compressed_bytes_def marker_codec_def stored_codec_def)

text \<open>
  C3. The claim is that a sample rejected by one chunk and retried against a second chunk
  gives byte for byte the payload of the first attempt, without being compressed again,
  because \<open>extend_if_has_space\<close> has rewritten it in the caller's list as a wrapper of
  its serialized bytes. The code does the rewriting, and does not keep the payload: in a
  second chunk under a byte compression, \<open>serialize_sample\<close> takes the wrapper's array,
  casts it and compresses it again. Here the first chunk (capacity 5) accepts \<open>[7, 8, 9]\<close>
  and rejects \<open>[4, 5, 6]\<close>, leaving the wrapper of the payload \<open>[0, 4, 5, 6]\<close> in the
  list. For the second chunk, the stored codec, which decodes bytes without a dtype as
  numpy does (as float64; the wrapper carries none), raises ValueError; and a compressor
  that answers every call with 255 has its answer returned in place of the wrapper's
  bytes, so the compressor is called for the retried sample.
\<close>

theorem retried_wrapper_not_returned_as_is:
  "extend_if_has_space stored_codec (empty_chunk 5)
     [SV_Array (uint8_array [7, 8, 9]), SV_Array (uint8_array [4, 5, 6])] =
   (Inr 1,
    (empty_chunk 5)\<lparr>data_bytes := [0, 7, 8, 9], shapes := [Some [3]],
                     byte_positions_encoder := [(0, 4)], shapes_encoder := [Some [3]]\<rparr>,
    [SV_Sample (Sample_buffer [0, 7, 8, 9] (Some ''lz4'') (Some [3])),
     SV_Sample (Sample_buffer [0, 4, 5, 6] (Some ''lz4'') (Some [3]))])
   \<and> serialize_sample stored_codec (empty_chunk 100)
         (SV_Sample (Sample_buffer [0, 4, 5, 6] (Some ''lz4'') (Some [3]))) = Inl ValueError
   \<and> serialize_sample marker_codec (empty_chunk 100)
         (SV_Sample (Sample_buffer [0, 4, 5, 6] (Some ''lz4'') (Some [3]))) =
       Inr ([255], Some [3])"
  by (simp add: run_two_samples retried_under_stored_codec retried_under_marker_codec)

subsection \<open>Reading a sample back\<close>

lemma read_sample_returns_raw_buffer:
  "read_sample env self k c = Inr (R_Array a)
     \<Longrightarrow> arr_dtype a = chunk_dtype self
         \<and> arr_data a =
             take (snd (byte_positions_encoder self ! k) - fst (byte_positions_encoder self ! k))
               (drop (fst (byte_positions_encoder self ! k)) (data_bytes self))"
  by (auto simp: read_sample_def Let_def np_frombuffer_def np_reshape_def
      split: if_splits sum.splits prod.splits option.splits)

lemma stored_codec_decodes:
  "decompress_array stored_codec [0, 7, 8, 9] (Some [3]) (Some ''uint8'') (Some ''lz4'') =
     Inr (uint8_array [7, 8, 9])"
  by (simp add: stored_codec_def stored_decompress_array_def np_frombuffer_def np_reshape_def
      itemsize_def uint8_array_def)

text \<open>
  C1. The claim is that \<open>read_sample\<close>, at the index where a sample was stored, gives the
  sample back. The code does not do that for a chunk that is not text-like: the array it
  returns is the stored, still compressed bytes of the sample read as the chunk's dtype
  and reshaped, and the decompressed array is computed and dropped. Here the sample
  \<open>[7, 8, 9]\<close> of shape \<open>(3,)\<close> is accepted at index 0 with the four-byte payload
  \<open>[0, 7, 8, 9]\<close>; the codec decodes the payload to the sample, and \<open>read_sample\<close>
  raises ValueError, because four bytes cannot be reshaped to \<open>(3,)\<close>.
\<close>

theorem read_sample_does_not_decompress:
  "extend_if_has_space stored_codec (empty_chunk 5)
     [SV_Array (uint8_array [7, 8, 9]), SV_Array (uint8_array [4, 5, 6])] =
   (Inr 1,
    (empty_chunk 5)\<lparr>data_bytes := [0, 7, 8, 9], shapes := [Some [3]],
                     byte_positions_encoder := [(0, 4)], shapes_encoder := [Some [3]]\<rparr>,
    [SV_Sample (Sample_buffer [0, 7, 8, 9] (Some ''lz4'') (Some [3])),
     SV_Sample (Sample_buffer [0, 4, 5, 6] (Some ''lz4'') (Some [3]))])
   \<and> decompress_array stored_codec [0, 7, 8, 9] (Some [3]) (Some ''uint8'') (Some ''lz4'') =
       Inr (uint8_array [7, 8, 9])
   \<and> read_sample stored_codec
         ((empty_chunk 5)\<lparr>data_bytes := [0, 7, 8, 9], shapes := [Some [3]],
                     byte_positions_encoder := [(0, 4)], shapes_encoder := [Some [3]]\<rparr>)
         0 True = Inl ValueError"
proof -
  have dec: "stored_decompress_array [0, 7, 8, 9] (Some [3]) (Some ''uint8'') (Some ''lz4'') =
               Inr (uint8_array [7, 8, 9])"
    using stored_codec_decodes by (simp add: stored_codec_def)
  have "read_sample stored_codec
         ((empty_chunk 5)\<lparr>data_bytes := [0, 7, 8, 9], shapes := [Some [3]],
                     byte_positions_encoder := [(0, 4)], shapes_encoder := [Some [3]]\<rparr>)
         0 True = Inl ValueError"
    by (simp add: read_sample_def empty_chunk_def stored_codec_def dec uint8_array_def
        np_frombuffer_def np_reshape_def itemsize_def)
  then show ?thesis
    by (simp add: run_two_samples stored_codec_decodes)
qed

section \<open>Properties of the linked chunk engine\<close>

lemma get_video_sample_bare_int: "\<exists>e. get_video_sample env g (Bare_int k) = Inl e"
  by (simp add: get_video_sample_def split: sum.splits)

lemma get_video_sample_is_decoder_output:
  "get_video_sample env g idx = Inr v \<Longrightarrow> \<exists>url a b c d. decompress_video env url a b c d = Inr v"
  by (auto simp: get_video_sample_def Let_def
      split: sum.splits py_index.splits list.splits prod.splits if_splits; blast)

text \<open>
  C8. The claim is that a bare scalar index makes \<open>get_video_sample\<close> return the decoded
  frames without their leading dimension. The code does not do that. For a bare int the
  call raises AttributeError at \<open>index.values\<close> and returns nothing; for an \<open>Index\<close> that
  selects the single frame 3, \<open>squeeze\<close> is false and the decoder's array of shape
  \<open>(1, 1, 1, 3)\<close> is returned with its leading dimension; and whatever is returned is
  the decoder's own array, since the result of \<open>squeeze(0)\<close> is dropped. A slice keeps
  its leading dimension, as the claim says.
\<close>

theorem get_video_sample_never_squeezes:
  "get_video_sample local_video 0 (Bare_int 3) = Inl AttributeError
   \<and> get_video_sample local_video 0 (Index [Value_int 0, Value_int 3]) =
       Inr \<lparr>arr_dtype = ''uint8'', arr_shape = [1, 1, 1, 3], arr_data = replicate 3 0\<rparr>
   \<and> get_video_sample local_video 0 (Index [Value_int 0, Value_slice (Some 2) (Some 4) None]) =
       Inr \<lparr>arr_dtype = ''uint8'', arr_shape = [2, 1, 1, 3], arr_data = replicate 6 0\<rparr>"
  by (simp add: get_video_sample_def local_video_def startswith_def)

end
